theory Spec2Isabelle
  imports Complex_Main
begin

section \<open>The JSON values read by the loader\<close>

text \<open>
  \<^verbatim>\<open>model_loader.h\<close> reads its input through the JSON library's value type
  \<^verbatim>\<open>nlohmann::json\<close>. A value is null, a boolean, a number (stored as an integer or as
  a double), a string, an array, or an object. An object is kept as the list of its
  members in the order of the library's map (keys are unique).
\<close>

datatype json =
    JNull
  | JBool bool
  | JInt int
  | JFloat real
  | JString string
  | JArray "json list"
  | JObject "(string \<times> json) list"

text \<open>
  Everything that stops a call short of its return value is an error value:
  the exceptions of the JSON library and of \<^verbatim>\<open>std::vector\<close>, and the places where
  C++ leaves the behaviour undefined.
\<close>

datatype error =
    TypeError          \<comment> \<open>\<^verbatim>\<open>json::type_error\<close>: the value has the wrong JSON type\<close>
  | JsonOutOfRange     \<comment> \<open>\<^verbatim>\<open>json::out_of_range\<close>: missing key or array index\<close>
  | InvalidIterator    \<comment> \<open>\<^verbatim>\<open>json::invalid_iterator\<close>: \<^verbatim>\<open>back()\<close> of null\<close>
  | StdOutOfRange      \<comment> \<open>\<^verbatim>\<open>std::out_of_range\<close> of \<^verbatim>\<open>std::vector::at\<close>\<close>
  | LengthError        \<comment> \<open>\<^verbatim>\<open>std::length_error\<close>: a vector of negative size\<close>
  | Undefined          \<comment> \<open>undefined behaviour: signed overflow, reading past a buffer\<close>

fun bindE :: "error + 'x \<Rightarrow> ('x \<Rightarrow> error + 'y) \<Rightarrow> error + 'y" where
  "bindE (Inl e) f = Inl e"
| "bindE (Inr x) f = f x"

text \<open>A counted loop or a range-for: the body runs on each element in turn and the
  first error leaves the loop.\<close>

primrec foldE :: "('i \<Rightarrow> 's \<Rightarrow> error + 's) \<Rightarrow> 'i list \<Rightarrow> 's \<Rightarrow> error + 's" where
  "foldE f [] s = Inr s"
| "foldE f (x # xs) s = bindE (f x s) (foldE f xs)"

primrec mapE :: "('i \<Rightarrow> error + 'o) \<Rightarrow> 'i list \<Rightarrow> error + 'o list" where
  "mapE f [] = Inr []"
| "mapE f (x # xs) = bindE (f x) (\<lambda>y. bindE (mapE f xs) (\<lambda>ys. Inr (y # ys)))"

subsection \<open>The library calls the loader makes\<close>

text \<open>\<^verbatim>\<open>j.is_array()\<close>.\<close>

fun is_array :: "json \<Rightarrow> bool" where
  "is_array (JArray xs) = True"
| "is_array _ = False"

text \<open>\<^verbatim>\<open>j.size()\<close>: 0 for null, the number of elements of an array or object, 1 for
  every other value.\<close>

fun json_size :: "json \<Rightarrow> nat" where
  "json_size JNull = 0"
| "json_size (JArray xs) = length xs"
| "json_size (JObject kvs) = length kvs"
| "json_size _ = 1"

text \<open>\<^verbatim>\<open>j.at(i)\<close> with an index: only an array has elements, and the index is checked.\<close>

fun at_idx :: "json \<Rightarrow> nat \<Rightarrow> error + json" where
  "at_idx (JArray xs) i = (if i < length xs then Inr (xs ! i) else Inl JsonOutOfRange)"
| "at_idx _ i = Inl TypeError"

text \<open>\<^verbatim>\<open>j[i]\<close> with an index, as the loader uses it (after \<^verbatim>\<open>size() == 4\<close>, on a value
  it does not modify): an array gives its element without a range check, any other value
  raises.\<close>

fun sub_idx :: "json \<Rightarrow> nat \<Rightarrow> error + json" where
  "sub_idx (JArray xs) i = (if i < length xs then Inr (xs ! i) else Inl Undefined)"
| "sub_idx _ i = Inl TypeError"

text \<open>\<^verbatim>\<open>j.at(key)\<close>: only an object has members, and the key must be there.\<close>

fun at_key :: "json \<Rightarrow> string \<Rightarrow> error + json" where
  "at_key (JObject kvs) k = (case map_of kvs k of Some v \<Rightarrow> Inr v | None \<Rightarrow> Inl JsonOutOfRange)"
| "at_key _ k = Inl TypeError"

text \<open>\<^verbatim>\<open>j.contains(key)\<close>: false for every value that is not an object.\<close>

fun contains :: "json \<Rightarrow> string \<Rightarrow> bool" where
  "contains (JObject kvs) k = (map_of kvs k \<noteq> None)"
| "contains _ k = False"

text \<open>\<^verbatim>\<open>j.back()\<close>: the last element of an array or object, the value itself for a
  boolean, number or string; null raises, and an empty container has no last element
  (undefined behaviour).\<close>

fun json_back :: "json \<Rightarrow> error + json" where
  "json_back JNull = Inl InvalidIterator"
| "json_back (JArray xs) = (if xs = [] then Inl Undefined else Inr (last xs))"
| "json_back (JObject kvs) = (if kvs = [] then Inl Undefined else Inr (snd (last kvs)))"
| "json_back j = Inr j"

text \<open>\<^verbatim>\<open>j.get<std::string>()\<close>.\<close>

fun get_string :: "json \<Rightarrow> error + string" where
  "get_string (JString s) = Inr s"
| "get_string _ = Inl TypeError"

text \<open>
  The C++ type \<^verbatim>\<open>int\<close> has 32 bits. \<^verbatim>\<open>j.get<int>()\<close> converts a number (or a boolean)
  with \<^verbatim>\<open>static_cast<int>\<close>: a stored integer wraps around, a double is truncated
  towards zero and must then fit.
\<close>

definition int_min :: int where "int_min = - (2 ^ 31)"
definition int_max :: int where "int_max = 2 ^ 31 - 1"

definition in_int :: "int \<Rightarrow> bool" where
  "in_int n \<longleftrightarrow> int_min \<le> n \<and> n \<le> int_max"

definition wrap_int :: "int \<Rightarrow> int" where
  "wrap_int n = (n + 2 ^ 31) mod 2 ^ 32 - 2 ^ 31"

definition trunc_real :: "real \<Rightarrow> int" where
  "trunc_real r = (if 0 \<le> r then \<lfloor>r\<rfloor> else \<lceil>r\<rceil>)"

fun get_int :: "json \<Rightarrow> error + int" where
  "get_int (JInt n) = Inr (wrap_int n)"
| "get_int (JFloat r) = (if in_int (trunc_real r) then Inr (trunc_real r) else Inl Undefined)"
| "get_int (JBool b) = Inr (if b then 1 else 0)"
| "get_int _ = Inl TypeError"

text \<open>\<^verbatim>\<open>a * b\<close> on \<^verbatim>\<open>int\<close>: a product outside the type is undefined behaviour.\<close>

definition mul_int :: "int \<Rightarrow> int \<Rightarrow> error + int" where
  "mul_int a b = (if in_int (a * b) then Inr (a * b) else Inl Undefined)"

section \<open>Resolving a shape to a dimension count\<close>

text \<open>
  \<^verbatim>\<open>parseJson\<close> computes the input size \<^verbatim>\<open>nDims\<close> and every layer's \<^verbatim>\<open>layerDims\<close>
  by the same expression:
  \<^verbatim>\<open>s.size() == 4 ? s[2].get<int>() * s[3].get<int>() : s.back().get<int>()\<close>.
\<close>

definition layerDims :: "json \<Rightarrow> error + int" where
  "layerDims s =
     (if json_size s = 4
      then bindE (sub_idx s 2) (\<lambda>c. bindE (get_int c) (\<lambda>a.
           bindE (sub_idx s 3) (\<lambda>f. bindE (get_int f) (\<lambda>b. mul_int a b))))
      else bindE (json_back s) get_int)"

definition nDims :: "json \<Rightarrow> error + int" where
  "nDims shape = layerDims shape"

section \<open>Layers and the model\<close>

text \<open>
  The layer classes and the model class are declared in headers that
  \<^verbatim>\<open>model_loader.h\<close> includes. Every layer derives from a base class holding the two
  sizes the loader reads.
\<close>

record Layer =
  in_size :: int
  out_size :: int

record 'a Dense = Layer +
  weights :: "'a list list"
  bias :: "'a list"

record 'a LSTMLayer = Layer +
  wVals :: "'a list list"
  uVals :: "'a list list"
  bVals :: "'a list"

record Activation = Layer +
  name :: string

text \<open>What a \<^verbatim>\<open>Layer<T>*\<close> can point to; the null pointer is \<open>None\<close>.\<close>

datatype 'a layer_obj =
    DenseObj "'a Dense"
  | LSTMObj "'a LSTMLayer"
  | ActivationObj Activation

fun obj_out_size :: "'a layer_obj \<Rightarrow> int" where
  "obj_out_size (DenseObj d) = out_size d"
| "obj_out_size (LSTMObj l) = out_size l"
| "obj_out_size (ActivationObj a) = out_size a"

record 'a Model =
  layers :: "'a layer_obj option list"
  next_in_size :: int

text \<open>
  Modelled from the spec: the constructor \<^verbatim>\<open>Model<T>(nDims)\<close> (\<^verbatim>\<open>Model.h\<close> is not
  among the sources). The model is created empty with only the initial input
  dimensionality.
\<close>

definition new_Model :: "int \<Rightarrow> 'a Model" where
  "new_Model n = \<lparr>layers = [], next_in_size = n\<rparr>"

text \<open>
  Modelled from the spec: \<^verbatim>\<open>Model::getNextInSize\<close>, the query for the next expected
  input size, which the model tracks as running state.
\<close>

definition getNextInSize :: "'a Model \<Rightarrow> int" where
  "getNextInSize m = next_in_size m"

text \<open>
  Modelled from the spec: \<^verbatim>\<open>Model::addLayer\<close>, which appends an owned layer to the
  ordered sequence; the next expected input size is updated after the append and
  becomes the appended layer's output size. A null pointer has no output size and
  leaves it as it is.
\<close>

definition addLayer :: "'a Model \<Rightarrow> 'a layer_obj option \<Rightarrow> 'a Model" where
  "addLayer m p =
     m\<lparr>layers := layers m @ [p],
       next_in_size := (case p of None \<Rightarrow> next_in_size m | Some l \<Rightarrow> obj_out_size l)\<rparr>"

subsection \<open>Vectors\<close>

text \<open>\<^verbatim>\<open>std::vector<X> v(n)\<close> with an \<^verbatim>\<open>int\<close> argument: a negative count becomes a
  huge unsigned one, which the vector refuses.\<close>

definition new_vector :: "int \<Rightarrow> 'b \<Rightarrow> error + 'b list" where
  "new_vector n x = (if n < 0 then Inl LengthError else Inr (replicate (nat n) x))"

text \<open>\<^verbatim>\<open>w.resize(n, z)\<close>.\<close>

definition resize :: "'b list \<Rightarrow> int \<Rightarrow> 'b \<Rightarrow> error + 'b list" where
  "resize w n z =
     (if n < 0 then Inl LengthError
      else Inr (take (nat n) w @ replicate (nat n - length w) z))"

text \<open>\<^verbatim>\<open>m.at(r).at(c) = v\<close>: both indices are checked.\<close>

definition at_at_assign :: "'b list list \<Rightarrow> nat \<Rightarrow> nat \<Rightarrow> 'b \<Rightarrow> error + 'b list list" where
  "at_at_assign m r c v =
     (if r < length m
      then (if c < length (m ! r) then Inr (m[r := (m ! r)[c := v]]) else Inl StdOutOfRange)
      else Inl StdOutOfRange)"

subsection \<open>Numbers of the weight type\<close>

text \<open>
  The loader is generic in the weight type \<^verbatim>\<open>T\<close>. The conversion \<^verbatim>\<open>j.get<T>()\<close> of
  the JSON library is a parameter \<open>get_T\<close> of the model: it gives the converted number,
  or nothing where the library raises a type error.
\<close>

definition get_num :: "(json \<Rightarrow> 'a option) \<Rightarrow> json \<Rightarrow> error + 'a" where
  "get_num get_T j = (case get_T j of None \<Rightarrow> Inl TypeError | Some v \<Rightarrow> Inr v)"

text \<open>\<^verbatim>\<open>j.get<std::vector<T>>()\<close>: the value must be an array, and every element is
  converted.\<close>

fun get_vector :: "(json \<Rightarrow> 'a option) \<Rightarrow> json \<Rightarrow> error + 'a list" where
  "get_vector get_T (JArray xs) = mapE (get_num get_T) xs"
| "get_vector get_T _ = Inl TypeError"

section \<open>Dense layers\<close>

text \<open>
  Modelled from the spec: the constructor \<^verbatim>\<open>Dense<T>(in_size, out_size)\<close> and the
  mutators \<^verbatim>\<open>setWeights\<close> and \<^verbatim>\<open>setBias\<close> (\<^verbatim>\<open>dense/dense.h\<close> is not among the sources).
  The layer exposes a mutator to set a matrix-shaped kernel and one to set a
  vector-shaped bias of length \<open>out_size\<close>. \<^verbatim>\<open>setBias\<close> receives a bare pointer, so the
  layer reads \<open>out_size\<close> numbers from it; reading past the end of the caller's buffer
  is undefined. What the layer holds before the mutators are called is not specified;
  zeros stand for it.
\<close>

definition new_Dense :: "int \<Rightarrow> int \<Rightarrow> ('a::zero) Dense" where
  "new_Dense i o' =
     \<lparr>in_size = i, out_size = o',
      weights = replicate (nat o') (replicate (nat i) 0), bias = replicate (nat o') 0\<rparr>"

definition setWeights :: "'a Dense \<Rightarrow> 'a list list \<Rightarrow> 'a Dense" where
  "setWeights dense newWeights = dense\<lparr>weights := newWeights\<rparr>"

definition setBias :: "'a Dense \<Rightarrow> 'a list \<Rightarrow> error + 'a Dense" where
  "setBias dense b =
     (if int (length b) < out_size dense then Inl Undefined
      else Inr (dense\<lparr>bias := take (nat (out_size dense)) b\<rparr>))"

text \<open>
  \<^verbatim>\<open>loadDense\<close>, lines 23 to 43. The kernel starts as \<open>out_size\<close> rows of \<open>in_size\<close>
  zeros; the loops then write the number at row \<open>i\<close>, column \<open>j\<close> of the source to
  row \<open>j\<close>, column \<open>i\<close> of the kernel. In the assignment the right-hand side is
  evaluated first.
\<close>

definition loadDense ::
  "(json \<Rightarrow> 'a option) \<Rightarrow> ('a::zero) Dense \<Rightarrow> json \<Rightarrow> error + 'a Dense" where
  "loadDense get_T dense weights' =
     bindE (new_vector (out_size dense) []) (\<lambda>denseWeights0.
     bindE (mapE (\<lambda>w. resize w (in_size dense) 0) denseWeights0) (\<lambda>denseWeights1.
     bindE (at_idx weights' 0) (\<lambda>layerWeights.
     bindE (foldE (\<lambda>i denseWeights.
              bindE (at_idx layerWeights i) (\<lambda>lw.
              foldE (\<lambda>j denseWeights.
                bindE (at_idx lw j) (\<lambda>x.
                bindE (get_num get_T x) (\<lambda>v.
                at_at_assign denseWeights j i v)))
              [0..<json_size lw] denseWeights))
            [0..<json_size layerWeights] denseWeights1) (\<lambda>denseWeights.
     bindE (at_idx weights' 1) (\<lambda>b.
     bindE (get_vector get_T b) (\<lambda>denseBias.
     setBias (setWeights dense denseWeights) denseBias))))))"

text \<open>\<^verbatim>\<open>createDense\<close>, lines 46 to 52.\<close>

definition createDense ::
  "(json \<Rightarrow> 'a option) \<Rightarrow> int \<Rightarrow> int \<Rightarrow> json \<Rightarrow> error + ('a::zero) Dense" where
  "createDense get_T i o' weights' = loadDense get_T (new_Dense i o') weights'"

text \<open>\<^verbatim>\<open>checkDense\<close>, lines 55 to 71. \<^verbatim>\<open>debug_print\<close> only writes to the standard
  output, so the flag \<open>debug\<close> has no part in the verdict.\<close>

definition checkDense :: "'a Dense \<Rightarrow> string \<Rightarrow> int \<Rightarrow> bool \<Rightarrow> bool" where
  "checkDense dense type layerDims' debug =
     (if type \<noteq> ''dense'' \<and> type \<noteq> ''time-distributed-dense'' then False
      else if layerDims' \<noteq> out_size dense then False
      else True)"

section \<open>LSTM layers\<close>

text \<open>
  Modelled from the spec: the constructor \<^verbatim>\<open>LSTMLayer<T>(in_size, out_size)\<close> and the
  mutators \<^verbatim>\<open>setWVals\<close>, \<^verbatim>\<open>setUVals\<close> and \<^verbatim>\<open>setBVals\<close> (\<^verbatim>\<open>lstm/lstm.h\<close> is not
  among the sources). The layer exposes mutators to set the input kernel, the recurrent
  kernel and the bias, a vector of length \<open>4 * out_size\<close>; a shorter vector would be
  read past its end. What the layer holds before the mutators are called is not
  specified; empty lists stand for it.
\<close>

definition new_LSTMLayer :: "int \<Rightarrow> int \<Rightarrow> 'a LSTMLayer" where
  "new_LSTMLayer i o' = \<lparr>in_size = i, out_size = o', wVals = [], uVals = [], bVals = []\<rparr>"

definition setWVals :: "'a LSTMLayer \<Rightarrow> 'a list list \<Rightarrow> 'a LSTMLayer" where
  "setWVals lstm w = lstm\<lparr>wVals := w\<rparr>"

definition setUVals :: "'a LSTMLayer \<Rightarrow> 'a list list \<Rightarrow> 'a LSTMLayer" where
  "setUVals lstm u = lstm\<lparr>uVals := u\<rparr>"

definition setBVals :: "'a LSTMLayer \<Rightarrow> 'a list \<Rightarrow> error + 'a LSTMLayer" where
  "setBVals lstm b =
     (if int (length b) < 4 * out_size lstm then Inl Undefined
      else Inr (lstm\<lparr>bVals := take (nat (4 * out_size lstm)) b\<rparr>))"

text \<open>
  \<^verbatim>\<open>loadLSTM\<close>, lines 78 to 113. Both kernels start as rows of \<open>4 * out_size\<close> zeros,
  \<open>in_size\<close> rows for the input kernel and \<open>out_size\<close> rows for the recurrent one, and
  the loops write the number at row \<open>i\<close>, column \<open>j\<close> of the source to row \<open>i\<close>,
  column \<open>j\<close>.
\<close>

definition loadLSTM ::
  "(json \<Rightarrow> 'a option) \<Rightarrow> ('a::zero) LSTMLayer \<Rightarrow> json \<Rightarrow> error + 'a LSTMLayer" where
  "loadLSTM get_T lstm weights' =
     bindE (new_vector (in_size lstm) []) (\<lambda>kernelWeights0.
     bindE (mapE (\<lambda>w. bindE (mul_int 4 (out_size lstm)) (\<lambda>n. resize w n 0)) kernelWeights0)
       (\<lambda>kernelWeights1.
     bindE (at_idx weights' 0) (\<lambda>layerWeights.
     bindE (foldE (\<lambda>i kernelWeights.
              bindE (at_idx layerWeights i) (\<lambda>lw.
              foldE (\<lambda>j kernelWeights.
                bindE (at_idx lw j) (\<lambda>x.
                bindE (get_num get_T x) (\<lambda>v.
                at_at_assign kernelWeights i j v)))
              [0..<json_size lw] kernelWeights))
            [0..<json_size layerWeights] kernelWeights1) (\<lambda>kernelWeights.
     bindE (new_vector (out_size lstm) []) (\<lambda>recurrentWeights0.
     bindE (mapE (\<lambda>w. bindE (mul_int 4 (out_size lstm)) (\<lambda>n. resize w n 0)) recurrentWeights0)
       (\<lambda>recurrentWeights1.
     bindE (at_idx weights' 1) (\<lambda>layerWeights2.
     bindE (foldE (\<lambda>i recurrentWeights.
              bindE (at_idx layerWeights2 i) (\<lambda>lw.
              foldE (\<lambda>j recurrentWeights.
                bindE (at_idx lw j) (\<lambda>x.
                bindE (get_num get_T x) (\<lambda>v.
                at_at_assign recurrentWeights i j v)))
              [0..<json_size lw] recurrentWeights))
            [0..<json_size layerWeights2] recurrentWeights1) (\<lambda>recurrentWeights.
     bindE (at_idx weights' 2) (\<lambda>b.
     bindE (get_vector get_T b) (\<lambda>lstmBias.
     setBVals (setUVals (setWVals lstm kernelWeights) recurrentWeights) lstmBias))))))))))"

text \<open>\<^verbatim>\<open>createLSTM\<close>, lines 116 to 122.\<close>

definition createLSTM ::
  "(json \<Rightarrow> 'a option) \<Rightarrow> int \<Rightarrow> int \<Rightarrow> json \<Rightarrow> error + ('a::zero) LSTMLayer" where
  "createLSTM get_T i o' weights' = loadLSTM get_T (new_LSTMLayer i o') weights'"

text \<open>\<^verbatim>\<open>checkLSTM\<close>, lines 125 to 141.\<close>

definition checkLSTM :: "'a LSTMLayer \<Rightarrow> string \<Rightarrow> int \<Rightarrow> bool \<Rightarrow> bool" where
  "checkLSTM lstm type layerDims' debug =
     (if type \<noteq> ''lstm'' then False
      else if layerDims' \<noteq> out_size lstm then False
      else True)"

section \<open>Activations\<close>

text \<open>
  Modelled from the spec: the five activation classes and their accessor
  \<^verbatim>\<open>getName\<close> (\<^verbatim>\<open>activation/activation.h\<close> is not among the sources). An activation is
  constructed with a size and exposes that size and a self-reported kind name, the name
  being the tag it is created for.
\<close>

definition TanhActivation :: "int \<Rightarrow> Activation" where
  "TanhActivation dims = \<lparr>in_size = dims, out_size = dims, name = ''tanh''\<rparr>"

definition ReLuActivation :: "int \<Rightarrow> Activation" where
  "ReLuActivation dims = \<lparr>in_size = dims, out_size = dims, name = ''relu''\<rparr>"

definition SigmoidActivation :: "int \<Rightarrow> Activation" where
  "SigmoidActivation dims = \<lparr>in_size = dims, out_size = dims, name = ''sigmoid''\<rparr>"

definition SoftmaxActivation :: "int \<Rightarrow> Activation" where
  "SoftmaxActivation dims = \<lparr>in_size = dims, out_size = dims, name = ''softmax''\<rparr>"

definition ELuActivation :: "int \<Rightarrow> Activation" where
  "ELuActivation dims = \<lparr>in_size = dims, out_size = dims, name = ''elu''\<rparr>"

definition getName :: "Activation \<Rightarrow> string" where
  "getName actLayer = name actLayer"

text \<open>\<^verbatim>\<open>createActivation\<close>, lines 147 to 167; the empty pointer is \<open>None\<close>.\<close>

definition createActivation :: "string \<Rightarrow> int \<Rightarrow> Activation option" where
  "createActivation activationType dims =
     (if activationType = ''tanh'' then Some (TanhActivation dims)
      else if activationType = ''relu'' then Some (ReLuActivation dims)
      else if activationType = ''sigmoid'' then Some (SigmoidActivation dims)
      else if activationType = ''softmax'' then Some (SoftmaxActivation dims)
      else if activationType = ''elu'' then Some (ELuActivation dims)
      else None)"

text \<open>\<^verbatim>\<open>checkActivation\<close>, lines 170 to 186.\<close>

definition checkActivation :: "Activation \<Rightarrow> string \<Rightarrow> int \<Rightarrow> bool \<Rightarrow> bool" where
  "checkActivation actLayer activationType dims debug =
     (if dims \<noteq> out_size actLayer then False
      else if activationType \<noteq> getName actLayer then False
      else True)"

section \<open>Building the model\<close>

text \<open>\<^verbatim>\<open>j[key]\<close> on a value the loader does not modify, called after
  \<^verbatim>\<open>contains(key)\<close>.\<close>

fun sub_key :: "json \<Rightarrow> string \<Rightarrow> error + json" where
  "sub_key (JObject kvs) k = (case map_of kvs k of Some v \<Rightarrow> Inr v | None \<Rightarrow> Inl Undefined)"
| "sub_key _ k = Inl TypeError"

text \<open>The values a range-for visits: the elements of an array, the member values of an
  object, nothing for null and the value itself otherwise.\<close>

fun items :: "json \<Rightarrow> json list" where
  "items JNull = []"
| "items (JArray xs) = xs"
| "items (JObject kvs) = map snd kvs"
| "items j = [j]"

text \<open>
  The closure \<^verbatim>\<open>add_activation\<close>, lines 218 to 230, which captures \<open>layerDims\<close>.
  The pointer released by \<^verbatim>\<open>createActivation\<close> goes to \<^verbatim>\<open>addLayer\<close> as it is.
\<close>

definition add_activation :: "int \<Rightarrow> 'a Model \<Rightarrow> json \<Rightarrow> error + 'a Model" where
  "add_activation layerDims' model l =
     (if contains l ''activation''
      then bindE (sub_key l ''activation'') (\<lambda>a.
           bindE (get_string a) (\<lambda>activationType.
           if activationType \<noteq> []
           then Inr (addLayer model
                  (map_option ActivationObj (createActivation activationType layerDims')))
           else Inr model))
      else Inr model)"

text \<open>The body of the loop over the layer entries, lines 205 to 249.\<close>

definition parse_layer ::
  "(json \<Rightarrow> 'a option) \<Rightarrow> json \<Rightarrow> ('a::zero) Model \<Rightarrow> error + 'a Model" where
  "parse_layer get_T l model =
     bindE (at_key l ''type'') (\<lambda>t.
     bindE (get_string t) (\<lambda>type.
     bindE (at_key l ''shape'') (\<lambda>layerShape.
     bindE (layerDims layerShape) (\<lambda>layerDims'.
     bindE (at_key l ''weights'') (\<lambda>weights'.
       if type = ''dense'' \<or> type = ''time-distributed-dense''
       then bindE (createDense get_T (getNextInSize model) layerDims' weights') (\<lambda>dense.
            add_activation layerDims' (addLayer model (Some (DenseObj dense))) l)
       else if type = ''lstm''
       then bindE (createLSTM get_T (getNextInSize model) layerDims' weights') (\<lambda>lstm.
            Inr (addLayer model (Some (LSTMObj lstm))))
       else if type = ''activation''
       then add_activation layerDims' model l
       else Inr model)))))"

text \<open>
  \<^verbatim>\<open>parseJson\<close>, lines 189 to 252. The result is an error, the empty pointer (\<open>None\<close>)
  or the finished model.
\<close>

definition parseJson ::
  "(json \<Rightarrow> 'a option) \<Rightarrow> json \<Rightarrow> bool \<Rightarrow> error + ('a::zero) Model option" where
  "parseJson get_T parent debug =
     bindE (at_key parent ''in_shape'') (\<lambda>shape.
     bindE (at_key parent ''layers'') (\<lambda>layers'.
     if \<not> is_array shape \<or> \<not> is_array layers' then Inr None
     else bindE (nDims shape) (\<lambda>n.
          bindE (foldE (parse_layer get_T) (items layers') (new_Model n)) (\<lambda>model.
          Inr (Some model)))))"

subsection \<open>An instance of the weight type\<close>

text \<open>For the examples the weight type is the reals and every JSON number converts to
  itself; other values are refused.\<close>

definition get_real :: "json \<Rightarrow> real option" where
  "get_real j = (case j of JInt n \<Rightarrow> Some (real_of_int n) | JFloat r \<Rightarrow> Some r | _ \<Rightarrow> None)"

subsection \<open>Auxiliary notions\<close>

text \<open>Two matrices of the same shape: as many rows, and rows of the same lengths.\<close>

definition same_shape :: "'b list list \<Rightarrow> 'b list list \<Rightarrow> bool" where
  "same_shape M N \<longleftrightarrow> length N = length M \<and> (\<forall>r<length M. length (N ! r) = length (M ! r))"



section \<open>Shape resolution\<close>

lemma wrap_int_id: "in_int n \<Longrightarrow> wrap_int n = n"
  by (simp add: in_int_def int_min_def int_max_def wrap_int_def)

lemma layerDims_four:
  "layerDims (JArray [a, b, c, f]) =
     bindE (get_int c) (\<lambda>x. bindE (get_int f) (\<lambda>y. mul_int x y))"
  by (simp add: layerDims_def)

lemma layerDims_other:
  "length xs \<noteq> 4 \<Longrightarrow> xs \<noteq> [] \<Longrightarrow> layerDims (JArray xs) = get_int (last xs)"
  by (simp add: layerDims_def)

text \<open>
  C3, as stated, fails: a shape whose length is neither 2 nor 4 is not refused. The
  shape \<open>[1, 2, 3]\<close> resolves to its last element, 3.
\<close>

theorem layerDims_length_three_counterexample:
  "layerDims (JArray [JInt 1, JInt 2, JInt 3]) = Inr 3"
  by (simp add: layerDims_def wrap_int_def)

text \<open>
  C3, amended: for every non-empty shape of integers that fit the type \<^verbatim>\<open>int\<close>, shape
  resolution returns the product of the 3rd and 4th elements when the shape has exactly
  4 elements (and the product fits), and the last element for every other length; no
  length is refused.
\<close>

theorem layerDims_resolves:
  assumes "xs \<noteq> []" and "\<forall>n\<in>set xs. in_int n"
    and "length xs = 4 \<longrightarrow> in_int (xs ! 2 * xs ! 3)"
  shows "layerDims (JArray (map JInt xs)) =
           Inr (if length xs = 4 then xs ! 2 * xs ! 3 else last xs)"
proof (cases "length xs = 4")
  case True
  then obtain a b c f where xs: "xs = [a, b, c, f]"
    by (auto simp: length_Suc_conv eval_nat_numeral)
  with assms show ?thesis
    by (simp add: layerDims_four wrap_int_id mul_int_def)
next
  case False
  with assms have "layerDims (JArray (map JInt xs)) = get_int (last (map JInt xs))"
    by (simp add: layerDims_other)
  also have "\<dots> = Inr (last xs)"
    using assms by (simp add: last_map wrap_int_id)
  finally show ?thesis using False by simp
qed

theorem layerDims_resolves_witness:
  "layerDims (JArray (map JInt [1, 1, 2, 3])) = Inr 6 \<and>
   layerDims (JArray (map JInt [1, 8])) = Inr 8 \<and>
   layerDims (JArray (map JInt [7, 8, 9])) = Inr 9"
  using layerDims_resolves [of "[1, 1, 2, 3]"] layerDims_resolves [of "[1, 8]"]
    layerDims_resolves [of "[7, 8, 9]"]
  by (simp add: in_int_def int_min_def int_max_def)

section \<open>The top-level fields\<close>

text \<open>
  C9: when \<open>in_shape\<close> and \<open>layers\<close> are both present and one of them is not an array,
  \<^verbatim>\<open>parseJson\<close> returns the empty pointer, no model; when one of the two fields is
  missing, it fails with the library's out-of-range error.
\<close>

theorem parseJson_fields:
  "(map_of kvs ''in_shape'' = Some shape \<and> map_of kvs ''layers'' = Some ls \<and>
      (\<not> is_array shape \<or> \<not> is_array ls)
      \<longrightarrow> parseJson get_T (JObject kvs) debug = Inr None) \<and>
   (map_of kvs ''in_shape'' = None \<or> map_of kvs ''layers'' = None
      \<longrightarrow> parseJson get_T (JObject kvs) debug = Inl JsonOutOfRange)"
  by (auto simp: parseJson_def split: option.splits)

theorem parseJson_fields_witness:
  "parseJson get_real (JObject [(''in_shape'', JInt 8), (''layers'', JArray [])]) False
     = Inr None \<and>
   parseJson get_real (JObject [(''in_shape'', JArray [JInt 1, JInt 8]), (''layers'', JNull)]) False
     = Inr None \<and>
   parseJson get_real (JObject [(''layers'', JArray [])]) False = Inl JsonOutOfRange \<and>
   parseJson get_real (JObject [(''in_shape'', JArray [JInt 1, JInt 8])]) False
     = Inl JsonOutOfRange"
  using
    parseJson_fields [of "[(''in_shape'', JInt 8), (''layers'', JArray [])]"
      "JInt 8" "JArray []" get_real False]
    parseJson_fields [of "[(''in_shape'', JArray [JInt 1, JInt 8]), (''layers'', JNull)]"
      "JArray [JInt 1, JInt 8]" JNull get_real False]
    parseJson_fields [of "[(''layers'', JArray [])]" _ _ get_real False]
    parseJson_fields [of "[(''in_shape'', JArray [JInt 1, JInt 8])]" _ _ get_real False]
  by simp

section \<open>The copy loops\<close>

text \<open>
  The three pairs of nested loops differ only in the cell they write: row \<open>j\<close>, column
  \<open>i\<close> in \<^verbatim>\<open>loadDense\<close>, row \<open>i\<close>, column \<open>j\<close> in \<^verbatim>\<open>loadLSTM\<close>. The lemmas take
  the cell as two functions \<open>fr\<close> and \<open>fc\<close> of the loop indices. A run that ends
  without an error keeps the shape of the matrix, has written every number of the source
  to its cell, within range, and has left every other cell as it was.
\<close>

lemma bindE_Inr_iff: "bindE m f = Inr y \<longleftrightarrow> (\<exists>x. m = Inr x \<and> f x = Inr y)"
  by (cases m) auto

lemma foldE_append: "foldE f (xs @ ys) s = bindE (foldE f xs s) (foldE f ys)"
proof (induction xs arbitrary: s)
  case Nil
  show ?case by simp
next
  case (Cons x xs)
  show ?case by (cases "f x s") (simp_all add: Cons.IH)
qed

lemma foldE_upt_Suc:
  "foldE f [0..<Suc n] s = Inr s' \<longleftrightarrow> (\<exists>t. foldE f [0..<n] s = Inr t \<and> f n t = Inr s')"
  by (simp add: foldE_append bindE_Inr_iff)

lemma get_num_Inr: "get_num get_T x = Inr v \<longleftrightarrow> get_T x = Some v"
  by (simp add: get_num_def split: option.splits)

lemma at_at_assign_Inr:
  "at_at_assign M r c v = Inr M' \<longleftrightarrow>
     r < length M \<and> c < length (M ! r) \<and> M' = M[r := (M ! r)[c := v]]"
  by (auto simp: at_at_assign_def)

lemma cell_update:
  "r < length M \<Longrightarrow> c < length (M ! r) \<Longrightarrow>
   M[r := (M ! r)[c := v]] ! r' ! c' = (if r' = r \<and> c' = c then v else M ! r' ! c')"
  by (auto simp: nth_list_update)

lemma same_shape_refl: "same_shape M M"
  by (simp add: same_shape_def)

lemma same_shape_trans: "same_shape M N \<Longrightarrow> same_shape N K \<Longrightarrow> same_shape M K"
  by (simp add: same_shape_def)

lemma same_shape_update:
  "r < length M \<Longrightarrow> same_shape M (M[r := (M ! r)[c := v]])"
  by (simp add: same_shape_def nth_list_update)

lemma same_shape_length: "same_shape M N \<Longrightarrow> length N = length M"
  by (simp add: same_shape_def)

lemma same_shape_row: "same_shape M N \<Longrightarrow> r < length M \<Longrightarrow> length (N ! r) = length (M ! r)"
  by (simp add: same_shape_def)

lemma inner_loop:
  fixes fr fc :: "nat \<Rightarrow> nat"
  assumes inj: "\<And>j j'. fr j = fr j' \<Longrightarrow> fc j = fc j' \<Longrightarrow> j = j'"
    and run: "foldE (\<lambda>j M. bindE (at_idx lw j) (\<lambda>x. bindE (get_num get_T x) (\<lambda>v.
                 at_at_assign M (fr j) (fc j) v))) [0..<n] M = Inr M'"
  shows "same_shape M M' \<and>
         (\<forall>j<n. \<exists>x v. at_idx lw j = Inr x \<and> get_T x = Some v \<and>
                  fr j < length M \<and> fc j < length (M ! fr j) \<and> M' ! fr j ! fc j = v) \<and>
         (\<forall>r c. (\<forall>j<n. \<not> (fr j = r \<and> fc j = c)) \<longrightarrow> M' ! r ! c = M ! r ! c)"
  using run
proof (induction n arbitrary: M')
  case 0
  then show ?case by (simp add: same_shape_refl)
next
  case (Suc n)
  from Suc.prems obtain N x v where
    N: "foldE (\<lambda>j M. bindE (at_idx lw j) (\<lambda>x. bindE (get_num get_T x) (\<lambda>v.
                 at_at_assign M (fr j) (fc j) v))) [0..<n] M = Inr N"
    and x: "at_idx lw n = Inr x" and v: "get_T x = Some v"
    and r: "fr n < length N" and c: "fc n < length (N ! fr n)"
    and M': "M' = N[fr n := (N ! fr n)[fc n := v]]"
    unfolding foldE_upt_Suc bindE_Inr_iff get_num_Inr at_at_assign_Inr by blast
  note IH = Suc.IH [OF N]
  from IH have sh: "same_shape M N" by simp
  have cell: "M' ! r' ! c' = (if r' = fr n \<and> c' = fc n then v else N ! r' ! c')" for r' c'
    unfolding M' using r c by (rule cell_update)
  have 1: "same_shape M M'"
    unfolding M' using sh r by (blast intro: same_shape_trans same_shape_update)
  have 2: "\<exists>x v. at_idx lw j = Inr x \<and> get_T x = Some v \<and>
                  fr j < length M \<and> fc j < length (M ! fr j) \<and> M' ! fr j ! fc j = v"
    if "j < Suc n" for j
  proof (cases "j = n")
    case True
    have "fr n < length M" using r sh by (simp add: same_shape_def)
    moreover from this have "fc n < length (M ! fr n)" using c sh by (simp add: same_shape_def)
    ultimately show ?thesis using x v True cell by auto
  next
    case False
    with that have "j < n" by simp
    with IH obtain y w where "at_idx lw j = Inr y" "get_T y = Some w"
       "fr j < length M" "fc j < length (M ! fr j)" "N ! fr j ! fc j = w" by blast
    moreover have "\<not> (fr j = fr n \<and> fc j = fc n)" using inj False by blast
    ultimately show ?thesis using cell by auto
  qed
  have 3: "M' ! r' ! c' = M ! r' ! c'" if "\<forall>j<Suc n. \<not> (fr j = r' \<and> fc j = c')" for r' c'
  proof -
    from that have "\<not> (fr n = r' \<and> fc n = c')" by simp
    then have "M' ! r' ! c' = N ! r' ! c'" using cell by auto
    moreover from that IH have "N ! r' ! c' = M ! r' ! c'" by simp
    ultimately show ?thesis by simp
  qed
  from 1 2 3 show ?case by blast
qed


lemma outer_loop:
  fixes fr fc :: "nat \<Rightarrow> nat \<Rightarrow> nat"
  assumes inj: "\<And>i j i' j'. fr i j = fr i' j' \<Longrightarrow> fc i j = fc i' j' \<Longrightarrow> i = i' \<and> j = j'"
    and run: "foldE (\<lambda>i M. bindE (at_idx LW i) (\<lambda>lw.
                foldE (\<lambda>j M. bindE (at_idx lw j) (\<lambda>x. bindE (get_num get_T x) (\<lambda>v.
                  at_at_assign M (fr i j) (fc i j) v))) [0..<json_size lw] M))
              [0..<n] M = Inr M'"
  shows "same_shape M M' \<and>
         (\<forall>i<n. \<exists>lw. at_idx LW i = Inr lw \<and>
            (\<forall>j<json_size lw. \<exists>x v. at_idx lw j = Inr x \<and> get_T x = Some v \<and>
               fr i j < length M \<and> fc i j < length (M ! fr i j) \<and> M' ! fr i j ! fc i j = v)) \<and>
         (\<forall>r c. (\<forall>i<n. \<forall>lw. at_idx LW i = Inr lw \<longrightarrow>
                    (\<forall>j<json_size lw. \<not> (fr i j = r \<and> fc i j = c)))
                \<longrightarrow> M' ! r ! c = M ! r ! c)"
  using run
proof (induction n arbitrary: M')
  case 0
  then show ?case by (simp add: same_shape_refl)
next
  case (Suc n)
  from Suc.prems obtain N lw where
    N: "foldE (\<lambda>i M. bindE (at_idx LW i) (\<lambda>lw.
                foldE (\<lambda>j M. bindE (at_idx lw j) (\<lambda>x. bindE (get_num get_T x) (\<lambda>v.
                  at_at_assign M (fr i j) (fc i j) v))) [0..<json_size lw] M))
              [0..<n] M = Inr N"
    and lw: "at_idx LW n = Inr lw"
    and row: "foldE (\<lambda>j M. bindE (at_idx lw j) (\<lambda>x. bindE (get_num get_T x) (\<lambda>v.
                  at_at_assign M (fr n j) (fc n j) v))) [0..<json_size lw] N = Inr M'"
    unfolding foldE_upt_Suc bindE_Inr_iff by blast
  note IH = Suc.IH [OF N]
  have inj_n: "fr n j = fr n j' \<Longrightarrow> fc n j = fc n j' \<Longrightarrow> j = j'" for j j'
    using inj by blast
  note R = inner_loop [of "fr n" "fc n", OF inj_n row]
  from IH have sh: "same_shape M N" by simp
  from R have sh': "same_shape N M'" by simp
  have 1: "same_shape M M'"
    using sh sh' by (rule same_shape_trans)
  have 2: "\<exists>lw. at_idx LW i = Inr lw \<and>
            (\<forall>j<json_size lw. \<exists>x v. at_idx lw j = Inr x \<and> get_T x = Some v \<and>
               fr i j < length M \<and> fc i j < length (M ! fr i j) \<and> M' ! fr i j ! fc i j = v)"
    if "i < Suc n" for i
  proof (cases "i = n")
    case True
    have "\<exists>x v. at_idx lw j = Inr x \<and> get_T x = Some v \<and>
               fr n j < length M \<and> fc n j < length (M ! fr n j) \<and> M' ! fr n j ! fc n j = v"
      if j: "j < json_size lw" for j
    proof -
      from R j obtain x v where *: "at_idx lw j = Inr x" "get_T x = Some v"
        "fr n j < length N" "fc n j < length (N ! fr n j)" "M' ! fr n j ! fc n j = v"
        by blast
      from * sh have "fr n j < length M" by (simp add: same_shape_def)
      moreover from this * sh have "fc n j < length (M ! fr n j)" by (simp add: same_shape_def)
      ultimately show ?thesis using * by blast
    qed
    with lw True show ?thesis by blast
  next
    case False
    with that have "i < n" by simp
    with IH obtain lw' where lw': "at_idx LW i = Inr lw'"
      and cells: "\<forall>j<json_size lw'. \<exists>x v. at_idx lw' j = Inr x \<and> get_T x = Some v \<and>
               fr i j < length M \<and> fc i j < length (M ! fr i j) \<and> N ! fr i j ! fc i j = v"
      by blast
    have "M' ! fr i j ! fc i j = N ! fr i j ! fc i j" for j
    proof -
      have "\<forall>j'<json_size lw. \<not> (fr n j' = fr i j \<and> fc n j' = fc i j)"
        using inj False by blast
      with R show ?thesis by blast
    qed
    with lw' cells show ?thesis by simp
  qed
  have 3: "M' ! r ! c = M ! r ! c"
    if "\<forall>i<Suc n. \<forall>lw. at_idx LW i = Inr lw \<longrightarrow>
                    (\<forall>j<json_size lw. \<not> (fr i j = r \<and> fc i j = c))" for r c
  proof -
    from that lw have "\<forall>j<json_size lw. \<not> (fr n j = r \<and> fc n j = c)" by simp
    with R have "M' ! r ! c = N ! r ! c" by blast
    moreover from that IH have "N ! r ! c = M ! r ! c" by simp
    ultimately show ?thesis by simp
  qed
  from 1 2 3 show ?case by blast
qed


lemma mapE_Inr:
  "mapE f xs = Inr ys \<longleftrightarrow> length ys = length xs \<and> (\<forall>k<length xs. f (xs ! k) = Inr (ys ! k))"
proof (induction xs arbitrary: ys)
  case Nil
  show ?case by auto
next
  case (Cons x xs)
  show ?case
  proof (cases ys)
    case Nil
    then show ?thesis by (auto simp: bindE_Inr_iff)
  next
    case (Cons y ys')
    then show ?thesis
      by (auto simp: bindE_Inr_iff Cons.IH nth_Cons split: nat.splits)
  qed
qed

lemma mapE_replicate_Inr:
  "mapE f (replicate n x) = Inr ys \<longleftrightarrow>
     (n = 0 \<and> ys = []) \<or> (0 < n \<and> (\<exists>y. f x = Inr y \<and> ys = replicate n y))"
proof (cases "n = 0")
  case True
  then show ?thesis by auto
next
  case False
  have "(length ys = n \<and> (\<forall>k<n. f x = Inr (ys ! k))) \<longleftrightarrow> (\<exists>y. f x = Inr y \<and> ys = replicate n y)"
  proof
    assume *: "length ys = n \<and> (\<forall>k<n. f x = Inr (ys ! k))"
    with False have "f x = Inr (ys ! 0)" by simp
    moreover from * this have "ys = replicate n (ys ! 0)"
      by (auto simp: list_eq_iff_nth_eq)
    ultimately show "\<exists>y. f x = Inr y \<and> ys = replicate n y" by blast
  next
    assume "\<exists>y. f x = Inr y \<and> ys = replicate n y"
    then show "length ys = n \<and> (\<forall>k<n. f x = Inr (ys ! k))" by auto
  qed
  with False show ?thesis by (simp add: mapE_Inr)
qed

lemma resize_empty_Inr:
  "resize [] n z = Inr w \<longleftrightarrow> 0 \<le> n \<and> w = replicate (nat n) z"
  by (auto simp: resize_def)

lemma new_vector_Inr: "new_vector n x = Inr v \<longleftrightarrow> 0 \<le> n \<and> v = replicate (nat n) x"
  by (auto simp: new_vector_def)

lemma mul_int_Inr: "mul_int a b = Inr c \<longleftrightarrow> in_int (a * b) \<and> c = a * b"
  by (auto simp: mul_int_def)

lemma get_vector_Inr:
  "get_vector get_T b = Inr vs \<longleftrightarrow>
     (\<exists>xs. b = JArray xs \<and> length vs = length xs \<and> (\<forall>k<length xs. get_T (xs ! k) = Some (vs ! k)))"
  by (cases b) (simp_all add: mapE_Inr get_num_Inr)

lemma setBias_Inr:
  "setBias dense b = Inr d \<longleftrightarrow>
     out_size dense \<le> int (length b) \<and> d = dense\<lparr>bias := take (nat (out_size dense)) b\<rparr>"
  by (auto simp: setBias_def)

lemma loadDense_Inr:
  "loadDense get_T dense W = Inr d \<longleftrightarrow>
     (\<exists>M0 LW M b denseBias.
        0 \<le> out_size dense \<and>
        mapE (\<lambda>w. resize w (in_size dense) 0) (replicate (nat (out_size dense)) []) = Inr M0 \<and>
        at_idx W 0 = Inr LW \<and>
        foldE (\<lambda>i M. bindE (at_idx LW i) (\<lambda>lw.
                foldE (\<lambda>j M. bindE (at_idx lw j) (\<lambda>x. bindE (get_num get_T x) (\<lambda>v.
                  at_at_assign M j i v))) [0..<json_size lw] M))
              [0..<json_size LW] M0 = Inr M \<and>
        at_idx W 1 = Inr b \<and> get_vector get_T b = Inr denseBias \<and>
        out_size dense \<le> int (length denseBias) \<and>
        d = dense\<lparr>weights := M, bias := take (nat (out_size dense)) denseBias\<rparr>)"
  unfolding loadDense_def bindE_Inr_iff new_vector_Inr setBias_Inr setWeights_def
  by auto

lemma zero_rows:
  assumes "mapE (\<lambda>w. resize w n (0::'a::zero)) (replicate r []) = Inr M0"
  shows "M0 = replicate r (replicate (nat n) 0)"
  using assms by (auto simp: mapE_replicate_Inr resize_empty_Inr)

lemma same_shape_replicate:
  "same_shape (replicate r (replicate c z)) M \<longleftrightarrow>
     length M = r \<and> (\<forall>k<r. length (M ! k) = c)"
  by (simp add: same_shape_def)

lemma dense_kernel:
  assumes M0: "mapE (\<lambda>w. resize w n (0::'a::zero)) (replicate r []) = Inr M0"
    and run: "foldE (\<lambda>i M. bindE (at_idx LW i) (\<lambda>lw.
                foldE (\<lambda>j M. bindE (at_idx lw j) (\<lambda>x. bindE (get_num get_T x) (\<lambda>v.
                  at_at_assign M j i v))) [0..<json_size lw] M))
              [0..<json_size LW] M0 = Inr M"
  shows "length M = r \<and> (\<forall>k<r. length (M ! k) = nat n) \<and>
     (\<forall>i<json_size LW. \<exists>lw. at_idx LW i = Inr lw \<and>
        (\<forall>j<json_size lw. \<exists>x. at_idx lw j = Inr x \<and> get_T x = Some (M ! j ! i) \<and>
           j < r \<and> i < nat n)) \<and>
     (\<forall>j i. j < r \<longrightarrow> i < nat n \<longrightarrow>
        (\<forall>lw. at_idx LW i = Inr lw \<longrightarrow> json_size lw \<le> j) \<longrightarrow> M ! j ! i = 0)"
proof -
  have M0': "M0 = replicate r (replicate (nat n) 0)"
    using M0 by (rule zero_rows)
  note L = outer_loop [of "\<lambda>i j. j" "\<lambda>i j. i", OF _ run, simplified]
  from L have "same_shape M0 M" by simp
  then have shape: "length M = r \<and> (\<forall>k<r. length (M ! k) = nat n)"
    unfolding M0' same_shape_replicate by simp
  have cells: "\<exists>lw. at_idx LW i = Inr lw \<and>
        (\<forall>j<json_size lw. \<exists>x. at_idx lw j = Inr x \<and> get_T x = Some (M ! j ! i) \<and>
           j < r \<and> i < nat n)" if "i < json_size LW" for i
  proof -
    from L that obtain lw where lw: "at_idx LW i = Inr lw"
      and c: "\<forall>j<json_size lw. \<exists>x. at_idx lw j = Inr x \<and> get_T x = Some (M ! j ! i) \<and>
               j < length M0 \<and> i < length (M0 ! j)"
      by blast
    have "\<exists>x. at_idx lw j = Inr x \<and> get_T x = Some (M ! j ! i) \<and> j < r \<and> i < nat n"
      if "j < json_size lw" for j
    proof -
      from c that obtain x where "at_idx lw j = Inr x" "get_T x = Some (M ! j ! i)"
        "j < length M0" "i < length (M0 ! j)" by blast
      then show ?thesis unfolding M0' by auto
    qed
    with lw show ?thesis by blast
  qed
  have zeros: "M ! j ! i = 0"
    if "j < r" "i < nat n" "\<forall>lw. at_idx LW i = Inr lw \<longrightarrow> json_size lw \<le> j" for j i
  proof -
    from that(3) have "\<forall>i'<json_size LW. \<forall>lw. at_idx LW i' = Inr lw \<longrightarrow>
        (\<forall>j'<json_size lw. \<not> (j' = j \<and> i' = i))" by auto
    with L have "M ! j ! i = M0 ! j ! i" by blast
    with that show ?thesis unfolding M0' by simp
  qed
  from shape cells zeros show ?thesis by blast
qed

lemma loadDense_result:
  assumes "loadDense get_T dense W = Inr d"
  shows "\<exists>LW b denseBias.
     at_idx W 0 = Inr LW \<and> at_idx W 1 = Inr b \<and> get_vector get_T b = Inr denseBias \<and>
     0 \<le> out_size dense \<and> out_size dense \<le> int (length denseBias) \<and>
     in_size d = in_size dense \<and> out_size d = out_size dense \<and>
     bias d = take (nat (out_size dense)) denseBias \<and>
     length (weights d) = nat (out_size dense) \<and>
     (\<forall>r<nat (out_size dense). length (weights d ! r) = nat (in_size dense)) \<and>
     (\<forall>i<json_size LW. \<exists>lw. at_idx LW i = Inr lw \<and>
        (\<forall>j<json_size lw. \<exists>x. at_idx lw j = Inr x \<and> get_T x = Some (weights d ! j ! i) \<and>
           j < nat (out_size dense) \<and> i < nat (in_size dense))) \<and>
     (\<forall>r c. r < nat (out_size dense) \<longrightarrow> c < nat (in_size dense) \<longrightarrow>
        (\<forall>lw. at_idx LW c = Inr lw \<longrightarrow> json_size lw \<le> r) \<longrightarrow> weights d ! r ! c = 0)"
proof -
  from assms obtain M0 LW M b denseBias where
    o: "0 \<le> out_size dense"
    and M0: "mapE (\<lambda>w. resize w (in_size dense) 0) (replicate (nat (out_size dense)) []) = Inr M0"
    and LW: "at_idx W 0 = Inr LW"
    and run: "foldE (\<lambda>i M. bindE (at_idx LW i) (\<lambda>lw.
                foldE (\<lambda>j M. bindE (at_idx lw j) (\<lambda>x. bindE (get_num get_T x) (\<lambda>v.
                  at_at_assign M j i v))) [0..<json_size lw] M))
              [0..<json_size LW] M0 = Inr M"
    and b: "at_idx W 1 = Inr b" "get_vector get_T b = Inr denseBias"
      "out_size dense \<le> int (length denseBias)"
    and d: "d = dense\<lparr>weights := M, bias := take (nat (out_size dense)) denseBias\<rparr>"
    unfolding loadDense_Inr by blast
  note R = dense_kernel [OF M0 run]
  from LW b o R show ?thesis
    unfolding d by (intro exI [of _ LW] exI [of _ b] exI [of _ denseBias]) simp
qed

lemma at_idx_Inr: "at_idx a i = Inr x \<longleftrightarrow> (\<exists>xs. a = JArray xs \<and> i < length xs \<and> x = xs ! i)"
  by (cases a) auto

lemma at_idx_size: "at_idx a i = Inr x \<Longrightarrow> i < json_size a"
  by (auto simp: at_idx_Inr)

section \<open>Loading a dense layer\<close>

text \<open>
  C1: when a dense layer is built from a weights block, its kernel has \<open>out_size\<close> rows
  of \<open>in_size\<close> numbers and is the transpose of the source array: the number at row
  \<open>i\<close>, column \<open>j\<close> of the source, converted to the weight type, is at row \<open>j\<close>,
  column \<open>i\<close> of the kernel. Its bias has \<open>out_size\<close> numbers, each the converted
  element of the source bias array at the same index.
\<close>

theorem createDense_transposes:
  assumes "createDense get_T n_in n_out W = Inr d"
  shows "length (weights d) = nat n_out \<and>
         (\<forall>r<nat n_out. length (weights d ! r) = nat n_in) \<and>
         (\<forall>LW lw x i j. at_idx W 0 = Inr LW \<and> at_idx LW i = Inr lw \<and> at_idx lw j = Inr x
            \<longrightarrow> j < nat n_out \<and> i < nat n_in \<and> get_T x = Some (weights d ! j ! i)) \<and>
         length (bias d) = nat n_out \<and>
         (\<exists>bs. at_idx W 1 = Inr (JArray bs) \<and>
            (\<forall>j<nat n_out. j < length bs \<and> get_T (bs ! j) = Some (bias d ! j)))"
proof -
  from assms have "loadDense get_T (new_Dense n_in n_out) W = Inr d"
    by (simp add: createDense_def)
  from loadDense_result [OF this] obtain LW b denseBias where
    LW: "at_idx W 0 = Inr LW" and b: "at_idx W 1 = Inr b"
    and vs: "get_vector get_T b = Inr denseBias"
    and o: "0 \<le> n_out" "n_out \<le> int (length denseBias)"
    and bias: "bias d = take (nat n_out) denseBias"
    and len: "length (weights d) = nat n_out"
    and rows: "\<forall>r<nat n_out. length (weights d ! r) = nat n_in"
    and cells: "\<forall>i<json_size LW. \<exists>lw. at_idx LW i = Inr lw \<and>
        (\<forall>j<json_size lw. \<exists>x. at_idx lw j = Inr x \<and> get_T x = Some (weights d ! j ! i) \<and>
           j < nat n_out \<and> i < nat n_in)"
    by (auto simp: new_Dense_def)
  have kernel: "j < nat n_out \<and> i < nat n_in \<and> get_T x = Some (weights d ! j ! i)"
    if "at_idx W 0 = Inr LW'" "at_idx LW' i = Inr lw" "at_idx lw j = Inr x" for LW' lw x i j
  proof -
    from that LW have "LW' = LW" by simp
    with that have "i < json_size LW" "at_idx LW i = Inr lw" "j < json_size lw"
      by (auto dest: at_idx_size)
    with cells that(3) show ?thesis by fastforce
  qed
  from vs obtain bs where bs: "b = JArray bs" "length denseBias = length bs"
    "\<forall>k<length bs. get_T (bs ! k) = Some (denseBias ! k)"
    unfolding get_vector_Inr by blast
  have "length (bias d) = nat n_out"
    using o bias by simp
  moreover have "\<forall>j<nat n_out. j < length bs \<and> get_T (bs ! j) = Some (bias d ! j)"
    using o bs bias by auto
  ultimately show ?thesis
    using len rows kernel b bs(1) by blast
qed

theorem createDense_transposes_witness:
  "createDense get_real 2 3
     (JArray [JArray [JArray [JInt 1, JInt 2, JInt 3], JArray [JInt 4, JInt 5, JInt 6]],
              JArray [JInt 7, JInt 8, JInt 9]])
   = Inr \<lparr>in_size = 2, out_size = 3, weights = [[1, 4], [2, 5], [3, 6]], bias = [7, 8, 9]\<rparr> \<and>
   length (weights \<lparr>in_size = 2, out_size = 3, weights = [[1, 4], [2, 5], [3, 6]],
                    bias = [7, 8, 9::real]\<rparr>) = 3 \<and>
   length (bias \<lparr>in_size = 2, out_size = 3, weights = [[1, 4], [2, 5], [3, 6]],
                 bias = [7, 8, 9::real]\<rparr>) = 3"
proof -
  have e: "createDense get_real 2 3
     (JArray [JArray [JArray [JInt 1, JInt 2, JInt 3], JArray [JInt 4, JInt 5, JInt 6]],
              JArray [JInt 7, JInt 8, JInt 9]])
   = Inr \<lparr>in_size = 2, out_size = 3, weights = [[1, 4], [2, 5], [3, 6]], bias = [7, 8, 9]\<rparr>"
    by code_simp
  from createDense_transposes [OF e] e show ?thesis by simp
qed

section \<open>Loading an LSTM layer\<close>

lemma setBVals_Inr:
  "setBVals lstm b = Inr l \<longleftrightarrow>
     4 * out_size lstm \<le> int (length b) \<and> l = lstm\<lparr>bVals := take (nat (4 * out_size lstm)) b\<rparr>"
  by (auto simp: setBVals_def)

lemma loadLSTM_Inr:
  "loadLSTM get_T lstm W = Inr l \<longleftrightarrow>
     (\<exists>K0 LW K U0 LW2 U b lstmBias.
        0 \<le> in_size lstm \<and>
        mapE (\<lambda>w. bindE (mul_int 4 (out_size lstm)) (\<lambda>n. resize w n 0))
          (replicate (nat (in_size lstm)) []) = Inr K0 \<and>
        at_idx W 0 = Inr LW \<and>
        foldE (\<lambda>i M. bindE (at_idx LW i) (\<lambda>lw.
                foldE (\<lambda>j M. bindE (at_idx lw j) (\<lambda>x. bindE (get_num get_T x) (\<lambda>v.
                  at_at_assign M i j v))) [0..<json_size lw] M))
              [0..<json_size LW] K0 = Inr K \<and>
        0 \<le> out_size lstm \<and>
        mapE (\<lambda>w. bindE (mul_int 4 (out_size lstm)) (\<lambda>n. resize w n 0))
          (replicate (nat (out_size lstm)) []) = Inr U0 \<and>
        at_idx W 1 = Inr LW2 \<and>
        foldE (\<lambda>i M. bindE (at_idx LW2 i) (\<lambda>lw.
                foldE (\<lambda>j M. bindE (at_idx lw j) (\<lambda>x. bindE (get_num get_T x) (\<lambda>v.
                  at_at_assign M i j v))) [0..<json_size lw] M))
              [0..<json_size LW2] U0 = Inr U \<and>
        at_idx W 2 = Inr b \<and> get_vector get_T b = Inr lstmBias \<and>
        4 * out_size lstm \<le> int (length lstmBias) \<and>
        l = lstm\<lparr>wVals := K, uVals := U, bVals := take (nat (4 * out_size lstm)) lstmBias\<rparr>)"
  unfolding loadLSTM_def bindE_Inr_iff new_vector_Inr setBVals_Inr setWVals_def setUVals_def
  by auto

lemma zero_rows4:
  assumes "mapE (\<lambda>w. bindE (mul_int 4 n) (\<lambda>c. resize w c (0::'a::zero))) (replicate r []) = Inr M0"
  shows "M0 = replicate r (replicate (nat (4 * n)) 0)"
  using assms by (auto simp: mapE_replicate_Inr bindE_Inr_iff mul_int_Inr resize_empty_Inr)

lemma lstm_kernel:
  assumes M0: "mapE (\<lambda>w. bindE (mul_int 4 n) (\<lambda>c. resize w c (0::'a::zero))) (replicate r [])
                 = Inr M0"
    and run: "foldE (\<lambda>i M. bindE (at_idx LW i) (\<lambda>lw.
                foldE (\<lambda>j M. bindE (at_idx lw j) (\<lambda>x. bindE (get_num get_T x) (\<lambda>v.
                  at_at_assign M i j v))) [0..<json_size lw] M))
              [0..<json_size LW] M0 = Inr M"
  shows "length M = r \<and> (\<forall>k<r. length (M ! k) = nat (4 * n)) \<and>
     (\<forall>i<json_size LW. \<exists>lw. at_idx LW i = Inr lw \<and>
        (\<forall>j<json_size lw. \<exists>x. at_idx lw j = Inr x \<and> get_T x = Some (M ! i ! j) \<and>
           i < r \<and> j < nat (4 * n))) \<and>
     (\<forall>i j. i < r \<longrightarrow> j < nat (4 * n) \<longrightarrow>
        (\<forall>lw. at_idx LW i = Inr lw \<longrightarrow> json_size lw \<le> j) \<longrightarrow> M ! i ! j = 0)"
proof -
  have M0': "M0 = replicate r (replicate (nat (4 * n)) 0)"
    using M0 by (rule zero_rows4)
  note L = outer_loop [of "\<lambda>i j. i" "\<lambda>i j. j", OF _ run, simplified]
  from L have "same_shape M0 M" by simp
  then have shape: "length M = r \<and> (\<forall>k<r. length (M ! k) = nat (4 * n))"
    unfolding M0' same_shape_replicate by simp
  have cells: "\<exists>lw. at_idx LW i = Inr lw \<and>
        (\<forall>j<json_size lw. \<exists>x. at_idx lw j = Inr x \<and> get_T x = Some (M ! i ! j) \<and>
           i < r \<and> j < nat (4 * n))" if "i < json_size LW" for i
  proof -
    from L that obtain lw where lw: "at_idx LW i = Inr lw"
      and c: "\<forall>j<json_size lw. \<exists>x. at_idx lw j = Inr x \<and> get_T x = Some (M ! i ! j) \<and>
               i < length M0 \<and> j < length (M0 ! i)"
      by blast
    have "\<exists>x. at_idx lw j = Inr x \<and> get_T x = Some (M ! i ! j) \<and> i < r \<and> j < nat (4 * n)"
      if "j < json_size lw" for j
    proof -
      from c that obtain x where "at_idx lw j = Inr x" "get_T x = Some (M ! i ! j)"
        "i < length M0" "j < length (M0 ! i)" by blast
      then show ?thesis unfolding M0' by auto
    qed
    with lw show ?thesis by blast
  qed
  have zeros: "M ! i ! j = 0"
    if "i < r" "j < nat (4 * n)" "\<forall>lw. at_idx LW i = Inr lw \<longrightarrow> json_size lw \<le> j" for i j
  proof -
    from that(3) have "\<forall>i'<json_size LW. \<forall>lw. at_idx LW i' = Inr lw \<longrightarrow>
        (\<forall>j'<json_size lw. \<not> (i' = i \<and> j' = j))" by auto
    with L have "M ! i ! j = M0 ! i ! j" by blast
    with that show ?thesis unfolding M0' by simp
  qed
  from shape cells zeros show ?thesis by blast
qed

text \<open>
  C2: when an LSTM layer is built from a weights block, the input kernel has \<open>in_size\<close>
  rows, the recurrent kernel \<open>out_size\<close> rows, and every row of both has
  \<open>4 * out_size\<close> columns; both are copied without transposition: the number at row
  \<open>i\<close>, column \<open>j\<close> of a source array, converted to the weight type, is at row \<open>i\<close>,
  column \<open>j\<close> of its kernel.
\<close>

theorem createLSTM_copies:
  assumes "createLSTM get_T n_in n_out W = Inr l"
  shows "length (wVals l) = nat n_in \<and> (\<forall>r<nat n_in. length (wVals l ! r) = nat (4 * n_out)) \<and>
         length (uVals l) = nat n_out \<and> (\<forall>r<nat n_out. length (uVals l ! r) = nat (4 * n_out)) \<and>
         (\<forall>LW lw x i j. at_idx W 0 = Inr LW \<and> at_idx LW i = Inr lw \<and> at_idx lw j = Inr x
            \<longrightarrow> i < nat n_in \<and> j < nat (4 * n_out) \<and> get_T x = Some (wVals l ! i ! j)) \<and>
         (\<forall>LW lw x i j. at_idx W 1 = Inr LW \<and> at_idx LW i = Inr lw \<and> at_idx lw j = Inr x
            \<longrightarrow> i < nat n_out \<and> j < nat (4 * n_out) \<and> get_T x = Some (uVals l ! i ! j))"
proof -
  from assms have "loadLSTM get_T (new_LSTMLayer n_in n_out) W = Inr l"
    by (simp add: createLSTM_def)
  then obtain K0 LW K U0 LW2 U where
    K0: "mapE (\<lambda>w. bindE (mul_int 4 n_out) (\<lambda>n. resize w n (0::'a))) (replicate (nat n_in) [])
           = Inr K0"
    and LW: "at_idx W 0 = Inr LW"
    and K: "foldE (\<lambda>i M. bindE (at_idx LW i) (\<lambda>lw.
                foldE (\<lambda>j M. bindE (at_idx lw j) (\<lambda>x. bindE (get_num get_T x) (\<lambda>v.
                  at_at_assign M i j v))) [0..<json_size lw] M))
              [0..<json_size LW] K0 = Inr K"
    and U0: "mapE (\<lambda>w. bindE (mul_int 4 n_out) (\<lambda>n. resize w n (0::'a))) (replicate (nat n_out) [])
           = Inr U0"
    and LW2: "at_idx W 1 = Inr LW2"
    and U: "foldE (\<lambda>i M. bindE (at_idx LW2 i) (\<lambda>lw.
                foldE (\<lambda>j M. bindE (at_idx lw j) (\<lambda>x. bindE (get_num get_T x) (\<lambda>v.
                  at_at_assign M i j v))) [0..<json_size lw] M))
              [0..<json_size LW2] U0 = Inr U"
    and l: "wVals l = K" "uVals l = U"
    unfolding loadLSTM_Inr by (auto simp: new_LSTMLayer_def)
  note RK = lstm_kernel [OF K0 K]
  note RU = lstm_kernel [OF U0 U]
  have kernel: "i < nat n_in \<and> j < nat (4 * n_out) \<and> get_T x = Some (K ! i ! j)"
    if "at_idx W 0 = Inr LW'" "at_idx LW' i = Inr lw" "at_idx lw j = Inr x" for LW' lw x i j
  proof -
    from that LW have "LW' = LW" by simp
    with that have "i < json_size LW" "at_idx LW i = Inr lw" "j < json_size lw"
      by (auto dest: at_idx_size)
    with RK that(3) show ?thesis by fastforce
  qed
  have recurrent: "i < nat n_out \<and> j < nat (4 * n_out) \<and> get_T x = Some (U ! i ! j)"
    if "at_idx W 1 = Inr LW'" "at_idx LW' i = Inr lw" "at_idx lw j = Inr x" for LW' lw x i j
  proof -
    from that LW2 have "LW' = LW2" by simp
    with that have "i < json_size LW2" "at_idx LW2 i = Inr lw" "j < json_size lw"
      by (auto dest: at_idx_size)
    with RU that(3) show ?thesis by fastforce
  qed
  from RK RU kernel recurrent show ?thesis
    unfolding l by blast
qed

theorem createLSTM_copies_witness:
  "createLSTM get_real 2 1
     (JArray [JArray [JArray [JInt 1, JInt 2, JInt 3, JInt 4], JArray [JInt 5, JInt 6, JInt 7, JInt 8]],
              JArray [JArray [JInt 9, JInt 10, JInt 11, JInt 12]],
              JArray [JInt 13, JInt 14, JInt 15, JInt 16]])
   = Inr \<lparr>in_size = 2, out_size = 1, wVals = [[1, 2, 3, 4], [5, 6, 7, 8]],
          uVals = [[9, 10, 11, 12]], bVals = [13, 14, 15, 16]\<rparr> \<and>
   length (wVals \<lparr>in_size = 2, out_size = 1, wVals = [[1, 2, 3, 4], [5, 6, 7, 8]],
          uVals = [[9, 10, 11, 12]], bVals = [13, 14, 15, 16::real]\<rparr>) = 2 \<and>
   length (uVals \<lparr>in_size = 2, out_size = 1, wVals = [[1, 2, 3, 4], [5, 6, 7, 8]],
          uVals = [[9, 10, 11, 12]], bVals = [13, 14, 15, 16::real]\<rparr>) = 1"
proof -
  have e: "createLSTM get_real 2 1
     (JArray [JArray [JArray [JInt 1, JInt 2, JInt 3, JInt 4], JArray [JInt 5, JInt 6, JInt 7, JInt 8]],
              JArray [JArray [JInt 9, JInt 10, JInt 11, JInt 12]],
              JArray [JInt 13, JInt 14, JInt 15, JInt 16]])
   = Inr \<lparr>in_size = 2, out_size = 1, wVals = [[1, 2, 3, 4], [5, 6, 7, 8]],
          uVals = [[9, 10, 11, 12]], bVals = [13, 14, 15, 16]\<rparr>"
    by code_simp
  from createLSTM_copies [OF e] e show ?thesis by simp
qed

section \<open>Source arrays that do not fit the layer\<close>





































section \<open>The loop over the layer entries\<close>

lemma layers_addLayer: "layers (addLayer m p) = layers m @ [p]"
  by (simp add: addLayer_def)

lemma parse_layer_entry:
  assumes "map_of kvs ''type'' = Some (JString t)" and "map_of kvs ''shape'' = Some sh"
    and "layerDims sh = Inr d" and "map_of kvs ''weights'' = Some w"
  shows "parse_layer get_T (JObject kvs) m =
     (if t = ''dense'' \<or> t = ''time-distributed-dense''
      then bindE (createDense get_T (getNextInSize m) d w) (\<lambda>dense.
           add_activation d (addLayer m (Some (DenseObj dense))) (JObject kvs))
      else if t = ''lstm''
      then bindE (createLSTM get_T (getNextInSize m) d w) (\<lambda>lstm.
           Inr (addLayer m (Some (LSTMObj lstm))))
      else if t = ''activation'' then add_activation d m (JObject kvs)
      else Inr m)"
  using assms by (simp add: parse_layer_def)

lemma add_activation_absent:
  "map_of kvs ''activation'' = None \<Longrightarrow> add_activation d m (JObject kvs) = Inr m"
  by (simp add: add_activation_def)

lemma add_activation_string:
  "map_of kvs ''activation'' = Some (JString a) \<Longrightarrow>
   add_activation d m (JObject kvs) =
     (if a \<noteq> [] then Inr (addLayer m (map_option ActivationObj (createActivation a d)))
      else Inr m)"
  by (simp add: add_activation_def)

lemma createActivation_Some:
  "createActivation a d = Some act \<Longrightarrow> out_size act = d \<and> getName act = a"
  by (auto simp: createActivation_def getName_def TanhActivation_def ReLuActivation_def
      SigmoidActivation_def SoftmaxActivation_def ELuActivation_def split: if_splits)

lemma createActivation_known:
  "a \<in> {''tanh'', ''relu'', ''sigmoid'', ''softmax'', ''elu''} \<Longrightarrow>
   createActivation a d = Some \<lparr>in_size = d, out_size = d, name = a\<rparr>"
  by (auto simp: createActivation_def TanhActivation_def ReLuActivation_def
      SigmoidActivation_def SoftmaxActivation_def ELuActivation_def)

text \<open>
  C5, as stated, fails: a dense entry whose activation field is present and not empty
  does not always get an activation layer appended. For the tag \<open>gelu\<close>, which
  \<^verbatim>\<open>createActivation\<close> does not know, the model holds the dense layer and then a null
  pointer.
\<close>

theorem dense_unknown_activation_counterexample:
  "parseJson get_real
     (JObject [(''in_shape'', JArray [JInt 1, JInt 2]),
               (''layers'', JArray [
                  JObject [(''activation'', JString ''gelu''),
                           (''shape'', JArray [JInt 1, JInt 1]),
                           (''type'', JString ''dense''),
                           (''weights'', JArray [JArray [JArray [JInt 2], JArray [JInt 3]],
                                                 JArray [JInt 4]])]])]) False
   = Inr (Some \<lparr>layers = [Some (DenseObj \<lparr>in_size = 2, out_size = 1,
                                           weights = [[2, 3]], bias = [4]\<rparr>),
                         None],
               next_in_size = 1\<rparr>)"
  by code_simp

text \<open>
  C5, amended: for an entry with a type tag, a resolvable shape and a weights field,
  whose layer is built without error: a dense or time-distributed-dense entry appends
  the dense layer and then, if its activation field is one of the five tags \<open>tanh\<close>,
  \<open>relu\<close>, \<open>sigmoid\<close>, \<open>softmax\<close>, \<open>elu\<close>, appends the activation layer of that
  kind, sized to the entry's resolved output dimensionality; with the field absent or
  empty only the dense layer is appended. An lstm entry appends the LSTM layer and
  nothing else, whatever its activation field holds.
\<close>

theorem parse_layer_dense_lstm:
  assumes "map_of kvs ''type'' = Some (JString t)" and "map_of kvs ''shape'' = Some sh"
    and "layerDims sh = Inr d" and "map_of kvs ''weights'' = Some w"
  shows
   "((t = ''dense'' \<or> t = ''time-distributed-dense'') \<and>
       createDense get_T (getNextInSize m) d w = Inr dense \<longrightarrow>
       (map_of kvs ''activation'' = Some (JString a) \<and>
        a \<in> {''tanh'', ''relu'', ''sigmoid'', ''softmax'', ''elu''} \<longrightarrow>
          createActivation a d = Some \<lparr>in_size = d, out_size = d, name = a\<rparr> \<and>
          parse_layer get_T (JObject kvs) m =
            Inr (addLayer (addLayer m (Some (DenseObj dense)))
                   (Some (ActivationObj \<lparr>in_size = d, out_size = d, name = a\<rparr>))) \<and>
          layers (addLayer (addLayer m (Some (DenseObj dense)))
                   (Some (ActivationObj \<lparr>in_size = d, out_size = d, name = a\<rparr>))) =
            layers m @ [Some (DenseObj dense),
                        Some (ActivationObj \<lparr>in_size = d, out_size = d, name = a\<rparr>)]) \<and>
       (map_of kvs ''activation'' = None \<or> map_of kvs ''activation'' = Some (JString [])
          \<longrightarrow> parse_layer get_T (JObject kvs) m = Inr (addLayer m (Some (DenseObj dense))) \<and>
              layers (addLayer m (Some (DenseObj dense))) = layers m @ [Some (DenseObj dense)])) \<and>
    (t = ''lstm'' \<and> createLSTM get_T (getNextInSize m) d w = Inr lstm \<longrightarrow>
       parse_layer get_T (JObject kvs) m = Inr (addLayer m (Some (LSTMObj lstm))) \<and>
       layers (addLayer m (Some (LSTMObj lstm))) = layers m @ [Some (LSTMObj lstm)])"
proof (intro conjI impI)
  assume *: "(t = ''dense'' \<or> t = ''time-distributed-dense'') \<and>
       createDense get_T (getNextInSize m) d w = Inr dense"
    and **: "map_of kvs ''activation'' = Some (JString a) \<and>
        a \<in> {''tanh'', ''relu'', ''sigmoid'', ''softmax'', ''elu''}"
  from ** have a: "createActivation a d = Some \<lparr>in_size = d, out_size = d, name = a\<rparr>"
    by (simp add: createActivation_known)
  from ** have ne: "a \<noteq> []" by auto
  show "createActivation a d = Some \<lparr>in_size = d, out_size = d, name = a\<rparr>" by (rule a)
  show "parse_layer get_T (JObject kvs) m =
            Inr (addLayer (addLayer m (Some (DenseObj dense)))
                   (Some (ActivationObj \<lparr>in_size = d, out_size = d, name = a\<rparr>)))"
    using parse_layer_entry [OF assms, of get_T m] * ** a ne
    by (simp add: add_activation_string)
  show "layers (addLayer (addLayer m (Some (DenseObj dense)))
                   (Some (ActivationObj \<lparr>in_size = d, out_size = d, name = a\<rparr>))) =
            layers m @ [Some (DenseObj dense),
                        Some (ActivationObj \<lparr>in_size = d, out_size = d, name = a\<rparr>)]"
    by (simp add: layers_addLayer)
next
  assume *: "(t = ''dense'' \<or> t = ''time-distributed-dense'') \<and>
       createDense get_T (getNextInSize m) d w = Inr dense"
    and **: "map_of kvs ''activation'' = None \<or> map_of kvs ''activation'' = Some (JString [])"
  from ** have "add_activation d (addLayer m (Some (DenseObj dense))) (JObject kvs)
                  = Inr (addLayer m (Some (DenseObj dense)))"
    by (auto simp: add_activation_absent add_activation_string)
  then show "parse_layer get_T (JObject kvs) m = Inr (addLayer m (Some (DenseObj dense)))"
    using parse_layer_entry [OF assms, of get_T m] * by simp
  show "layers (addLayer m (Some (DenseObj dense))) = layers m @ [Some (DenseObj dense)]"
    by (simp add: layers_addLayer)
next
  assume *: "t = ''lstm'' \<and> createLSTM get_T (getNextInSize m) d w = Inr lstm"
  then show "parse_layer get_T (JObject kvs) m = Inr (addLayer m (Some (LSTMObj lstm)))"
    using parse_layer_entry [OF assms, of get_T m] by simp
  show "layers (addLayer m (Some (LSTMObj lstm))) = layers m @ [Some (LSTMObj lstm)]"
    by (simp add: layers_addLayer)
qed

theorem parse_layer_dense_lstm_witness:
  "parse_layer get_real
     (JObject [(''activation'', JString ''tanh''), (''shape'', JArray [JInt 1, JInt 1]),
               (''type'', JString ''dense''),
               (''weights'', JArray [JArray [JArray [JInt 2], JArray [JInt 3]], JArray [JInt 4]])])
     (new_Model 2)
   = Inr (addLayer (addLayer (new_Model 2)
            (Some (DenseObj \<lparr>in_size = 2, out_size = 1, weights = [[2, 3]], bias = [4]\<rparr>)))
            (Some (ActivationObj (TanhActivation 1)))) \<and>
   parse_layer get_real
     (JObject [(''shape'', JArray [JInt 1, JInt 1]), (''type'', JString ''time-distributed-dense''),
               (''weights'', JArray [JArray [JArray [JInt 2], JArray [JInt 3]], JArray [JInt 4]])])
     (new_Model 2)
   = Inr (addLayer (new_Model 2)
            (Some (DenseObj \<lparr>in_size = 2, out_size = 1, weights = [[2, 3]], bias = [4]\<rparr>))) \<and>
   parse_layer get_real
     (JObject [(''activation'', JString ''tanh''), (''shape'', JArray [JInt 1, JInt 1]),
               (''type'', JString ''lstm''),
               (''weights'', JArray [JArray [JArray [JInt 1, JInt 2, JInt 3, JInt 4]],
                                     JArray [JArray [JInt 5, JInt 6, JInt 7, JInt 8]],
                                     JArray [JInt 9, JInt 10, JInt 11, JInt 12]])])
     (new_Model 1)
   = Inr (addLayer (new_Model 1)
            (Some (LSTMObj \<lparr>in_size = 1, out_size = 1, wVals = [[1, 2, 3, 4]],
                             uVals = [[5, 6, 7, 8]], bVals = [9, 10, 11, 12]\<rparr>)))"
proof -
  have dims: "layerDims (JArray [JInt 1, JInt 1]) = Inr 1"
    by code_simp
  have d: "createDense get_real (getNextInSize (new_Model 2 :: real Model)) 1
             (JArray [JArray [JArray [JInt 2], JArray [JInt 3]], JArray [JInt 4]])
           = Inr \<lparr>in_size = 2, out_size = 1, weights = [[2, 3]], bias = [4]\<rparr>"
    by code_simp
  have l: "createLSTM get_real (getNextInSize (new_Model 1 :: real Model)) 1
             (JArray [JArray [JArray [JInt 1, JInt 2, JInt 3, JInt 4]],
                      JArray [JArray [JInt 5, JInt 6, JInt 7, JInt 8]],
                      JArray [JInt 9, JInt 10, JInt 11, JInt 12]])
           = Inr \<lparr>in_size = 1, out_size = 1, wVals = [[1, 2, 3, 4]],
                   uVals = [[5, 6, 7, 8]], bVals = [9, 10, 11, 12]\<rparr>"
    by code_simp
  have 1: "parse_layer get_real
     (JObject [(''activation'', JString ''tanh''), (''shape'', JArray [JInt 1, JInt 1]),
               (''type'', JString ''dense''),
               (''weights'', JArray [JArray [JArray [JInt 2], JArray [JInt 3]], JArray [JInt 4]])])
     (new_Model 2)
   = Inr (addLayer (addLayer (new_Model 2)
            (Some (DenseObj \<lparr>in_size = 2, out_size = 1, weights = [[2, 3]], bias = [4]\<rparr>)))
            (Some (ActivationObj (TanhActivation 1))))"
    using parse_layer_dense_lstm
      [where kvs = "[(''activation'', JString ''tanh''), (''shape'', JArray [JInt 1, JInt 1]),
               (''type'', JString ''dense''),
               (''weights'', JArray [JArray [JArray [JInt 2], JArray [JInt 3]], JArray [JInt 4]])]"
         and t = "''dense''" and sh = "JArray [JInt 1, JInt 1]" and d = 1
         and w = "JArray [JArray [JArray [JInt 2], JArray [JInt 3]], JArray [JInt 4]]"
         and get_T = get_real and m = "new_Model 2" and a = "''tanh''"
         and dense = "\<lparr>in_size = 2, out_size = 1, weights = [[2, 3]], bias = [4]\<rparr>"]
      dims d
    by (simp add: TanhActivation_def)
  have 2: "parse_layer get_real
     (JObject [(''shape'', JArray [JInt 1, JInt 1]), (''type'', JString ''time-distributed-dense''),
               (''weights'', JArray [JArray [JArray [JInt 2], JArray [JInt 3]], JArray [JInt 4]])])
     (new_Model 2)
   = Inr (addLayer (new_Model 2)
            (Some (DenseObj \<lparr>in_size = 2, out_size = 1, weights = [[2, 3]], bias = [4]\<rparr>)))"
    using parse_layer_dense_lstm
      [where kvs = "[(''shape'', JArray [JInt 1, JInt 1]),
               (''type'', JString ''time-distributed-dense''),
               (''weights'', JArray [JArray [JArray [JInt 2], JArray [JInt 3]], JArray [JInt 4]])]"
         and t = "''time-distributed-dense''" and sh = "JArray [JInt 1, JInt 1]" and d = 1
         and w = "JArray [JArray [JArray [JInt 2], JArray [JInt 3]], JArray [JInt 4]]"
         and get_T = get_real and m = "new_Model 2"
         and dense = "\<lparr>in_size = 2, out_size = 1, weights = [[2, 3]], bias = [4]\<rparr>"]
      dims d
    by simp
  have 3: "parse_layer get_real
     (JObject [(''activation'', JString ''tanh''), (''shape'', JArray [JInt 1, JInt 1]),
               (''type'', JString ''lstm''),
               (''weights'', JArray [JArray [JArray [JInt 1, JInt 2, JInt 3, JInt 4]],
                                     JArray [JArray [JInt 5, JInt 6, JInt 7, JInt 8]],
                                     JArray [JInt 9, JInt 10, JInt 11, JInt 12]])])
     (new_Model 1)
   = Inr (addLayer (new_Model 1)
            (Some (LSTMObj \<lparr>in_size = 1, out_size = 1, wVals = [[1, 2, 3, 4]],
                             uVals = [[5, 6, 7, 8]], bVals = [9, 10, 11, 12]\<rparr>)))"
    using parse_layer_dense_lstm
      [where kvs = "[(''activation'', JString ''tanh''), (''shape'', JArray [JInt 1, JInt 1]),
               (''type'', JString ''lstm''),
               (''weights'', JArray [JArray [JArray [JInt 1, JInt 2, JInt 3, JInt 4]],
                                     JArray [JArray [JInt 5, JInt 6, JInt 7, JInt 8]],
                                     JArray [JInt 9, JInt 10, JInt 11, JInt 12]])]"
         and t = "''lstm''" and sh = "JArray [JInt 1, JInt 1]" and d = 1
         and w = "JArray [JArray [JArray [JInt 1, JInt 2, JInt 3, JInt 4]],
                                     JArray [JArray [JInt 5, JInt 6, JInt 7, JInt 8]],
                                     JArray [JInt 9, JInt 10, JInt 11, JInt 12]]"
         and get_T = get_real and m = "new_Model 1"
         and lstm = "\<lparr>in_size = 1, out_size = 1, wVals = [[1, 2, 3, 4]],
                             uVals = [[5, 6, 7, 8]], bVals = [9, 10, 11, 12]\<rparr>"]
      dims l
    by simp
  from 1 2 3 show ?thesis by blast
qed



lemma foldE_skip:
  assumes "\<And>s. f x s = Inr s"
  shows "foldE f (pre @ x # post) s = foldE f (pre @ post) s"
  by (induction pre arbitrary: s) (auto simp: assms intro: arg_cong [where f = "\<lambda>g. bindE _ g"])

text \<open>
  C6, as stated, fails: an entry whose type tag is none of the four known ones is not
  skipped without error when it has no weights field. The loop reads the shape and the
  weights of every entry before it looks at the tag.
\<close>

theorem unknown_type_no_weights_counterexample:
  "parseJson get_real
     (JObject [(''in_shape'', JArray [JInt 1, JInt 3]),
               (''layers'', JArray [
                  JObject [(''shape'', JArray [JInt 1, JInt 3]),
                           (''type'', JString ''conv'')]])]) False
   = Inl JsonOutOfRange"
  by code_simp

text \<open>
  C6, amended: an entry whose type tag is none of the four known ones, and which has a
  shape field that resolves and a weights field, leaves the model as it is and raises
  nothing; the loop goes on with the remaining entries, so the build gives what it gives
  for the document without that entry. Without a shape field or a weights field such an
  entry fails the build with the out-of-range error of the missing key, and with a shape
  that does not resolve it fails with the error of the shape.
\<close>

theorem unknown_type_skipped:
  assumes "map_of kvs ''type'' = Some (JString t)"
    and "t \<notin> {''dense'', ''time-distributed-dense'', ''lstm'', ''activation''}"
  shows "(map_of kvs ''shape'' = Some sh \<and> layerDims sh = Inr d \<and>
          map_of kvs ''weights'' = Some w \<longrightarrow>
            parse_layer get_T (JObject kvs) m = Inr m \<and>
            foldE (parse_layer get_T) (pre @ JObject kvs # post) m =
              foldE (parse_layer get_T) (pre @ post) m \<and>
            parseJson get_T
              (JObject [(''in_shape'', s), (''layers'', JArray (pre @ JObject kvs # post))]) debug =
            parseJson get_T
              (JObject [(''in_shape'', s), (''layers'', JArray (pre @ post))]) debug) \<and>
         (map_of kvs ''shape'' = None \<longrightarrow>
            parse_layer get_T (JObject kvs) m = Inl JsonOutOfRange) \<and>
         (map_of kvs ''shape'' = Some sh \<and> layerDims sh = Inl e \<longrightarrow>
            parse_layer get_T (JObject kvs) m = Inl e) \<and>
         (map_of kvs ''shape'' = Some sh \<and> layerDims sh = Inr d \<and>
          map_of kvs ''weights'' = None \<longrightarrow>
            parse_layer get_T (JObject kvs) m = Inl JsonOutOfRange)"
proof (intro conjI impI)
  assume *: "map_of kvs ''shape'' = Some sh \<and> layerDims sh = Inr d \<and>
          map_of kvs ''weights'' = Some w"
  have skip: "parse_layer get_T (JObject kvs) m' = Inr m'" for m' :: "'a Model"
    using assms * by (simp add: parse_layer_def)
  show "parse_layer get_T (JObject kvs) m = Inr m" by (rule skip)
  show fold: "foldE (parse_layer get_T) (pre @ JObject kvs # post) m =
           foldE (parse_layer get_T) (pre @ post) m"
    using skip by (rule foldE_skip)
  have "foldE (parse_layer get_T) (pre @ JObject kvs # post) m' =
           foldE (parse_layer get_T) (pre @ post) m'" for m' :: "'a Model"
    using skip by (rule foldE_skip)
  then show "parseJson get_T
              (JObject [(''in_shape'', s), (''layers'', JArray (pre @ JObject kvs # post))]) debug =
            parseJson get_T
              (JObject [(''in_shape'', s), (''layers'', JArray (pre @ post))]) debug"
    by (simp add: parseJson_def)
next
  assume "map_of kvs ''shape'' = None"
  with assms show "parse_layer get_T (JObject kvs) m = Inl JsonOutOfRange"
    by (simp add: parse_layer_def)
next
  assume "map_of kvs ''shape'' = Some sh \<and> layerDims sh = Inl e"
  with assms show "parse_layer get_T (JObject kvs) m = Inl e"
    by (simp add: parse_layer_def)
next
  assume "map_of kvs ''shape'' = Some sh \<and> layerDims sh = Inr d \<and>
          map_of kvs ''weights'' = None"
  with assms show "parse_layer get_T (JObject kvs) m = Inl JsonOutOfRange"
    by (simp add: parse_layer_def)
qed

theorem unknown_type_skipped_witness:
  "parse_layer get_real
     (JObject [(''shape'', JArray [JInt 1, JInt 3]), (''type'', JString ''conv''),
               (''weights'', JArray [])])
     (new_Model 3) = Inr (new_Model 3) \<and>
   parseJson get_real
     (JObject [(''in_shape'', JArray [JInt 1, JInt 3]),
               (''layers'', JArray ([] @
                  JObject [(''shape'', JArray [JInt 1, JInt 3]), (''type'', JString ''conv''),
                           (''weights'', JArray [])] #
                  [JObject [(''activation'', JString ''relu''), (''shape'', JArray [JInt 1, JInt 3]),
                           (''type'', JString ''activation''), (''weights'', JArray [])]]))]) False
   = parseJson get_real
     (JObject [(''in_shape'', JArray [JInt 1, JInt 3]),
               (''layers'', JArray ([] @
                  [JObject [(''activation'', JString ''relu''), (''shape'', JArray [JInt 1, JInt 3]),
                           (''type'', JString ''activation''), (''weights'', JArray [])]]))]) False \<and>
   parse_layer get_real
     (JObject [(''type'', JString ''conv''), (''weights'', JArray [])]) (new_Model 3)
     = Inl JsonOutOfRange \<and>
   parse_layer get_real
     (JObject [(''shape'', JString ''wide''), (''type'', JString ''conv''),
               (''weights'', JArray [])]) (new_Model 3)
     = Inl TypeError \<and>
   parse_layer get_real
     (JObject [(''shape'', JArray [JInt 1, JInt 3]), (''type'', JString ''conv'')]) (new_Model 3)
     = Inl JsonOutOfRange"
proof -
  have dims: "layerDims (JArray [JInt 1, JInt 3]) = Inr 3"
    by code_simp
  have bad: "layerDims (JString ''wide'') = Inl TypeError"
    by code_simp
  note skip = unknown_type_skipped
      [where kvs = "[(''shape'', JArray [JInt 1, JInt 3]), (''type'', JString ''conv''),
               (''weights'', JArray [])]"
         and t = "''conv''" and sh = "JArray [JInt 1, JInt 3]" and d = 3 and w = "JArray []"
         and get_T = get_real and m = "new_Model 3" and pre = "[]"
         and post = "[JObject [(''activation'', JString ''relu''), (''shape'', JArray [JInt 1, JInt 3]),
                           (''type'', JString ''activation''), (''weights'', JArray [])]]"
         and s = "JArray [JInt 1, JInt 3]" and debug = False, THEN conjunct1]
  note no_shape = unknown_type_skipped
      [where kvs = "[(''type'', JString ''conv''), (''weights'', JArray [])]"
         and t = "''conv''" and get_T = get_real and m = "new_Model 3",
       THEN conjunct2, THEN conjunct1]
  note bad_shape = unknown_type_skipped
      [where kvs = "[(''shape'', JString ''wide''), (''type'', JString ''conv''),
               (''weights'', JArray [])]"
         and t = "''conv''" and sh = "JString ''wide''" and e = TypeError
         and get_T = get_real and m = "new_Model 3",
       THEN conjunct2, THEN conjunct2, THEN conjunct1]
  note no_weights = unknown_type_skipped
      [where kvs = "[(''shape'', JArray [JInt 1, JInt 3]), (''type'', JString ''conv'')]"
         and t = "''conv''" and sh = "JArray [JInt 1, JInt 3]" and d = 3
         and get_T = get_real and m = "new_Model 3",
       THEN conjunct2, THEN conjunct2, THEN conjunct2]
  show ?thesis
    using skip no_shape bad_shape no_weights dims bad by simp
qed

text \<open>
  C7, as stated, fails: an activation entry that omits its weights field is not accepted.
  The loop reads \<^verbatim>\<open>l.at("weights")\<close> for every entry before it looks at the type, and
  the build ends with the library's out-of-range error.
\<close>

theorem activation_without_weights_counterexample:
  "parseJson get_real
     (JObject [(''in_shape'', JArray [JInt 1, JInt 3]),
               (''layers'', JArray [
                  JObject [(''activation'', JString ''relu''), (''shape'', JArray [JInt 1, JInt 3]),
                           (''type'', JString ''activation'')]])]) False
   = Inl JsonOutOfRange"
  by code_simp

text \<open>
  C7, amended: an entry of type activation must carry a weights field like every other
  entry; when it is missing, the build fails with the out-of-range error of the missing
  key. When it is present, whatever its value, the entry is handled by
  \<^verbatim>\<open>add_activation\<close> alone and the value is not read.
\<close>

theorem activation_entry_weights:
  assumes "map_of kvs ''type'' = Some (JString ''activation'')"
    and "map_of kvs ''shape'' = Some sh" and "layerDims sh = Inr d"
  shows "(map_of kvs ''weights'' = None
            \<longrightarrow> parse_layer get_T (JObject kvs) m = Inl JsonOutOfRange) \<and>
         (map_of kvs ''weights'' = Some w
            \<longrightarrow> parse_layer get_T (JObject kvs) m = add_activation d m (JObject kvs))"
  using assms by (simp add: parse_layer_def)

theorem activation_entry_weights_witness:
  "parse_layer get_real
     (JObject [(''activation'', JString ''relu''), (''shape'', JArray [JInt 1, JInt 3]),
               (''type'', JString ''activation'')]) (new_Model 3)
   = Inl JsonOutOfRange \<and>
   parse_layer get_real
     (JObject [(''activation'', JString ''relu''), (''shape'', JArray [JInt 1, JInt 3]),
               (''type'', JString ''activation''), (''weights'', JNull)]) (new_Model 3)
   = Inr (addLayer (new_Model 3) (Some (ActivationObj (ReLuActivation 3))))"
  using activation_entry_weights
      [where kvs = "[(''activation'', JString ''relu''), (''shape'', JArray [JInt 1, JInt 3]),
               (''type'', JString ''activation'')]"
         and sh = "JArray [JInt 1, JInt 3]" and d = 3 and get_T = get_real and m = "new_Model 3"]
    activation_entry_weights
      [where kvs = "[(''activation'', JString ''relu''), (''shape'', JArray [JInt 1, JInt 3]),
               (''type'', JString ''activation''), (''weights'', JNull)]"
         and sh = "JArray [JInt 1, JInt 3]" and d = 3 and get_T = get_real and m = "new_Model 3"
         and w = JNull]
  by (simp add: layerDims_def wrap_int_def add_activation_def createActivation_def)

section \<open>The checks\<close>

lemma createDense_out_size: "createDense get_T n_in dims w = Inr dense \<Longrightarrow> out_size dense = dims"
  by (auto simp: createDense_def new_Dense_def dest!: loadDense_result)

lemma createLSTM_out_size: "createLSTM get_T n_in dims w = Inr lstm \<Longrightarrow> out_size lstm = dims"
  by (auto simp: createLSTM_def new_LSTMLayer_def loadLSTM_Inr)

text \<open>
  C8, as stated, fails for the two dense tags: a layer built from an entry tagged
  \<open>dense\<close> also passes the check against the other tag, \<open>time-distributed-dense\<close>.
\<close>

theorem checkDense_other_tag_counterexample:
  "createDense get_real 1 1 (JArray [JArray [JArray [JInt 2]], JArray [JInt 3]])
     = Inr \<lparr>in_size = 1, out_size = 1, weights = [[2]], bias = [3]\<rparr> \<and>
   checkDense \<lparr>in_size = 1, out_size = 1, weights = [[2]], bias = [3::real]\<rparr>
     ''time-distributed-dense'' 1 False"
  by code_simp

text \<open>
  C8, amended: a dense layer built for a resolved size passes \<^verbatim>\<open>checkDense\<close> exactly
  for that size and one of the two dense tags, which are interchangeable; an LSTM layer
  passes \<^verbatim>\<open>checkLSTM\<close> exactly for that size and the tag \<open>lstm\<close>; an activation
  passes \<^verbatim>\<open>checkActivation\<close> exactly for that size and the tag it was created for.
  The checks return a verdict only; they take the layer by constant reference and return
  no layer.
\<close>

theorem checks_verdict:
  "(createDense get_T n_in dims w = Inr dense \<longrightarrow>
      checkDense dense t n debug =
        ((t = ''dense'' \<or> t = ''time-distributed-dense'') \<and> n = dims)) \<and>
   (createLSTM get_T n_in dims w = Inr lstm \<longrightarrow>
      checkLSTM lstm t n debug = (t = ''lstm'' \<and> n = dims)) \<and>
   (createActivation a dims = Some act \<longrightarrow>
      checkActivation act t n debug = (t = a \<and> n = dims))"
proof (intro conjI impI)
  assume "createDense get_T n_in dims w = Inr dense"
  then have "out_size dense = dims" by (rule createDense_out_size)
  then show "checkDense dense t n debug =
        ((t = ''dense'' \<or> t = ''time-distributed-dense'') \<and> n = dims)"
    by (auto simp: checkDense_def)
next
  assume "createLSTM get_T n_in dims w = Inr lstm"
  then have "out_size lstm = dims" by (rule createLSTM_out_size)
  then show "checkLSTM lstm t n debug = (t = ''lstm'' \<and> n = dims)"
    by (auto simp: checkLSTM_def)
next
  assume "createActivation a dims = Some act"
  then have "out_size act = dims \<and> getName act = a" by (rule createActivation_Some)
  then show "checkActivation act t n debug = (t = a \<and> n = dims)"
    by (auto simp: checkActivation_def)
qed


theorem checks_verdict_witness:
  "checkDense \<lparr>in_size = 1, out_size = 1, weights = [[2]], bias = [3::real]\<rparr> ''dense'' 1 False \<and>
   \<not> checkDense \<lparr>in_size = 1, out_size = 1, weights = [[2]], bias = [3::real]\<rparr> ''lstm'' 1 False \<and>
   \<not> checkDense \<lparr>in_size = 1, out_size = 1, weights = [[2]], bias = [3::real]\<rparr> ''dense'' 2 False \<and>
   checkLSTM \<lparr>in_size = 1, out_size = 1, wVals = [[1, 2, 3, 4]],
              uVals = [[5, 6, 7, 8]], bVals = [9, 10, 11, 12::real]\<rparr> ''lstm'' 1 False \<and>
   \<not> checkLSTM \<lparr>in_size = 1, out_size = 1, wVals = [[1, 2, 3, 4]],
              uVals = [[5, 6, 7, 8]], bVals = [9, 10, 11, 12::real]\<rparr> ''dense'' 1 False \<and>
   checkActivation (TanhActivation 4) ''tanh'' 4 False \<and>
   \<not> checkActivation (TanhActivation 4) ''relu'' 4 False \<and>
   \<not> checkActivation (TanhActivation 4) ''tanh'' 5 False"
proof -
  have d: "createDense get_real 1 1 (JArray [JArray [JArray [JInt 2]], JArray [JInt 3]])
     = Inr \<lparr>in_size = 1, out_size = 1, weights = [[2]], bias = [3]\<rparr>"
    by code_simp
  have l: "createLSTM get_real 1 1
             (JArray [JArray [JArray [JInt 1, JInt 2, JInt 3, JInt 4]],
                      JArray [JArray [JInt 5, JInt 6, JInt 7, JInt 8]],
                      JArray [JInt 9, JInt 10, JInt 11, JInt 12]])
           = Inr \<lparr>in_size = 1, out_size = 1, wVals = [[1, 2, 3, 4]],
                   uVals = [[5, 6, 7, 8]], bVals = [9, 10, 11, 12]\<rparr>"
    by code_simp
  have a: "createActivation ''tanh'' 4 = Some (TanhActivation 4)"
    by (simp add: createActivation_def)
  note dense = checks_verdict [THEN conjunct1, rule_format, OF d]
  note lstm = checks_verdict [THEN conjunct2, THEN conjunct1, rule_format, OF l]
  note act = checks_verdict [THEN conjunct2, THEN conjunct2, rule_format, OF a]
  show ?thesis
    by (simp add: dense lstm act)
qed

end
